theory Spec2Isabelle
  imports Complex_Main "HOL-Library.Sublist"
begin

section \<open>Data model\<close>

text \<open>
  Values decoded from the AFAD JSON payload (\<^verbatim>\<open>response.json()\<close>): Python's
  \<^verbatim>\<open>None\<close>, \<^verbatim>\<open>bool\<close>, numbers, \<^verbatim>\<open>str\<close>, lists and dictionaries.
  Python floats are modelled as \<^typ>\<open>real\<close>: rounding, infinities and NaN of binary64
  are outside the model, except that a missing magnitude (pandas' NaN) is \<^term>\<open>None\<close>.
  Strings are byte strings; text beyond ASCII is its UTF-8 encoding.
\<close>

datatype json =
    JNull
  | JBool bool
  | JNum real
  | JStr string
  | JArr "json list"
  | JObj "(string \<times> json) list"

text \<open>The nested dictionary stored under the key \<^verbatim>\<open>magnitude_details\<close>.\<close>

record magnitude_details =
  md :: "real option"
  ml :: "real option"
  mw :: "real option"

text \<open>
  The value under a key that only some dictionaries have: the key is absent, or the
  value is pandas' NaN, or it is a Python value.
\<close>

datatype cell = Absent | NaN | Value json

text \<open>
  The unified earthquake dictionary built by \<^verbatim>\<open>kandilli.py\<close> and \<^verbatim>\<open>afad.py\<close>,
  one field per key. The key \<^verbatim>\<open>type\<close> is the field \<open>mag_type\<close>. The keys
  \<^verbatim>\<open>country\<close>, \<^verbatim>\<open>province\<close>, \<^verbatim>\<open>district\<close> and \<^verbatim>\<open>neighborhood\<close> exist only in
  AFAD dictionaries. The rows of the data frame built by \<^verbatim>\<open>pd.DataFrame(earthquakes)\<close>,
  as \<^verbatim>\<open>row.to_dict()\<close> returns them, are records of the same type;
  \<open>magnitude = None\<close> is a missing magnitude (\<^verbatim>\<open>pd.isna\<close>).
\<close>

record earthquake =
  eventID :: json
  date :: string
  latitude :: real
  longitude :: real
  depth :: real
  magnitude :: "real option"
  magnitude_details :: magnitude_details
  mag_type :: json
  location :: json
  country :: cell
  province :: cell
  district :: cell
  neighborhood :: cell
  timestamp :: int
  quality :: string
  source :: string

section \<open>utils.py: deduplicate\_earthquakes\<close>

text \<open>Line 37: \<^verbatim>\<open>abs((row['timestamp'] - other_row['timestamp']) / 1000)\<close>.\<close>

definition time_diff :: "earthquake \<Rightarrow> earthquake \<Rightarrow> real" where
  "time_diff row other_row = \<bar>real_of_int (timestamp row - timestamp other_row) / 1000\<bar>"

text \<open>Lines 40-43: the square root of the sum of the squared coordinate differences.\<close>

definition distance :: "earthquake \<Rightarrow> earthquake \<Rightarrow> real" where
  "distance row other_row =
     sqrt ((latitude row - latitude other_row)\<^sup>2 + (longitude row - longitude other_row)\<^sup>2)"

text \<open>
  Line 46: the magnitude difference, or \<^verbatim>\<open>float('inf')\<close> when either magnitude is
  missing; \<^term>\<open>None\<close> stands for that infinity.
\<close>

definition mag_diff :: "earthquake \<Rightarrow> earthquake \<Rightarrow> real option" where
  "mag_diff row other_row =
     (case magnitude row of
        None \<Rightarrow> None
      | Some a \<Rightarrow> (case magnitude other_row of None \<Rightarrow> None | Some b \<Rightarrow> Some \<bar>a - b\<bar>))"

text \<open>Line 49: \<^verbatim>\<open>time_diff < 60 and distance < 0.1 and mag_diff < 0.5\<close>.\<close>

definition is_duplicate :: "earthquake \<Rightarrow> earthquake \<Rightarrow> bool" where
  "is_duplicate row other_row \<longleftrightarrow>
     time_diff row other_row < 60 \<and> distance row other_row < 0.1
     \<and> (case mag_diff row other_row of None \<Rightarrow> False | Some d \<Rightarrow> d < 0.5)"

text \<open>
  Lines 32-50, the inner loop over all rows of the frame (paired with their index) for
  the representative \<open>row\<close> at index \<open>i\<close>; the state is \<^verbatim>\<open>used_indices\<close>.
\<close>

definition mark_duplicates ::
  "(nat \<times> earthquake) list \<Rightarrow> nat \<Rightarrow> earthquake \<Rightarrow> nat set \<Rightarrow> nat set" where
  "mark_duplicates df i row used_indices =
     fold (\<lambda>(j, other_row) used.
             if i = j \<or> j \<in> used then used
             else if is_duplicate row other_row then insert j used
             else used)
          df used_indices"

text \<open>
  Lines 25-50, one turn of the outer loop; the state is the pair of
  \<^verbatim>\<open>unique_earthquakes\<close> and \<^verbatim>\<open>used_indices\<close>.
\<close>

definition visit_row ::
  "(nat \<times> earthquake) list \<Rightarrow> nat \<times> earthquake \<Rightarrow> earthquake list \<times> nat set
     \<Rightarrow> earthquake list \<times> nat set" where
  "visit_row df ir st =
     (if fst ir \<in> snd st then st
      else (fst st @ [snd ir], mark_duplicates df (fst ir) (snd ir) (snd st)))"

text \<open>
  The function on the rows of the frame: the empty check of lines 14-15 and the loops of
  lines 22-52. The argument is the list of rows, in the order \<^verbatim>\<open>df.iterrows()\<close>
  yields them.
\<close>

definition deduplicate_earthquakes :: "earthquake list \<Rightarrow> earthquake list" where
  "deduplicate_earthquakes earthquakes =
     (if earthquakes = [] then []
      else let df = enumerate 0 earthquakes
           in fst (fold (visit_row df) df ([], {})))"


text \<open>
  The matching predicate in the words of the specification (section 4.3): timestamps
  less than 60 seconds apart (they are in milliseconds), Euclidean distance in degrees
  below 0.1, both magnitudes available and less than 0.5 apart.
\<close>

definition spec_same_event :: "earthquake \<Rightarrow> earthquake \<Rightarrow> bool" where
  "spec_same_event A B \<longleftrightarrow>
     \<bar>timestamp A - timestamp B\<bar> < 60 * 1000
     \<and> sqrt ((latitude A - latitude B)\<^sup>2 + (longitude A - longitude B)\<^sup>2) < 0.1
     \<and> (\<exists>a b. magnitude A = Some a \<and> magnitude B = Some b \<and> \<bar>a - b\<bar> < 0.5)"

text \<open>Sample rows: a Kandilli report, and variations of its time, place and magnitude.\<close>

definition quake0 :: earthquake where
  "quake0 = \<lparr> eventID = JStr ''kandilli_20240115_103045'', date = ''2024-01-15T10:30:45'',
     latitude = 40.70, longitude = 29.00, depth = 7, magnitude = Some 3.2,
     magnitude_details = \<lparr> md = None, ml = Some 3.2, mw = None \<rparr>, mag_type = JStr ''ML'',
     location = JStr ''MARMARA DENIZI'', country = Absent, province = Absent, district = Absent,
     neighborhood = Absent, timestamp = 1705314645000, quality = ''ILKSEL'',
     source = ''Kandilli'' \<rparr>"

definition shifted :: "int \<Rightarrow> real \<Rightarrow> real option \<Rightarrow> earthquake" where
  "shifted ms dlat m =
     quake0 \<lparr> latitude := latitude quake0 + dlat, magnitude := m,
              timestamp := timestamp quake0 + ms, source := ''AFAD'' \<rparr>"

text \<open>
  The invariant of the outer loop once the rows below index \<open>k\<close> are visited: the kept
  rows are the rows at some indices below \<open>k\<close>; no kept row matches a row that is
  neither itself nor consumed; and no kept row matches a row kept after it.
\<close>

definition resolver_inv :: "earthquake list \<Rightarrow> nat \<Rightarrow> earthquake list \<times> nat set \<Rightarrow> bool" where
  "resolver_inv xs k st \<longleftrightarrow>
     (\<exists>reps. fst st = map ((!) xs) reps \<and> (\<forall>r \<in> set reps. r < k)
        \<and> (\<forall>r \<in> set reps. \<forall>j < length xs. j \<notin> snd st \<and> j \<noteq> r \<longrightarrow>
              \<not> is_duplicate (xs ! r) (xs ! j))
        \<and> (\<forall>b < length reps. \<forall>a < b. \<not> is_duplicate (xs ! (reps ! a)) (xs ! (reps ! b))))"

section \<open>Python strings\<close>

text \<open>
  The string methods the parsers call, on byte strings. \<open>isspace\<close> is Python's
  \<^verbatim>\<open>str.isspace\<close> on ASCII (space, tab, line feed, vertical tab, form feed, carriage
  return and the separators 0x1C-0x1F); whitespace beyond ASCII is outside the model.
\<close>

definition isspace :: "char \<Rightarrow> bool" where
  "isspace c \<longleftrightarrow> c = CHR '' '' \<or> (9 \<le> (of_char c :: nat) \<and> (of_char c :: nat) \<le> 13)
     \<or> (28 \<le> (of_char c :: nat) \<and> (of_char c :: nat) \<le> 31)"

text \<open>\<^verbatim>\<open>s.split()\<close>: the maximal runs of non-whitespace; \<open>cur\<close> is the run being read.\<close>

fun split_run :: "string \<Rightarrow> string \<Rightarrow> string list" where
  "split_run cur [] = (if cur = [] then [] else [cur])"
| "split_run cur (c # cs) =
     (if isspace c then (if cur = [] then split_run [] cs else cur # split_run [] cs)
      else split_run (cur @ [c]) cs)"

definition split :: "string \<Rightarrow> string list" where
  "split s = split_run [] s"




definition startswith :: "string \<Rightarrow> string \<Rightarrow> bool" where
  "startswith s p \<longleftrightarrow> take (length p) s = p"


text \<open>
  \<^verbatim>\<open>s.replace(old, new)\<close> for a non-empty \<open>old\<close> (every call in the sources passes a
  non-empty literal): the occurrences are replaced from the left, without overlap.
\<close>

function replace :: "string \<Rightarrow> string \<Rightarrow> string \<Rightarrow> string" where
  "replace old new [] = []"
| "replace old new (c # cs) =
     (if old \<noteq> [] \<and> startswith (c # cs) old
      then new @ replace old new (drop (length old - 1) cs)
      else c # replace old new cs)"
  by pat_completeness auto
termination
  by (relation "measure (\<lambda>(old, new, s). length s)") auto

text \<open>\<^verbatim>\<open>sep.join(xs)\<close>.\<close>

fun join :: "string \<Rightarrow> string list \<Rightarrow> string" where
  "join sep [] = []"
| "join sep [x] = x"
| "join sep (x # y # ys) = x @ sep @ join sep (y # ys)"

section \<open>Library calls\<close>

text \<open>The exceptions the parsers can meet; \<^verbatim>\<open>except Exception\<close> catches each of them.\<close>

datatype exn = ValueError | TypeError | AttributeError | OverflowError

definition and_then :: "exn + 'a \<Rightarrow> ('a \<Rightarrow> exn + 'b) \<Rightarrow> exn + 'b" where
  "and_then m f = (case m of Inl e \<Rightarrow> Inl e | Inr x \<Rightarrow> f x)"

definition raise_if_none :: "exn \<Rightarrow> 'a option \<Rightarrow> exn + 'a" where
  "raise_if_none e r = (case r of None \<Rightarrow> Inl e | Some x \<Rightarrow> Inr x)"

text \<open>
  A \<^verbatim>\<open>datetime\<close> object: \<open>wall\<close> is its wall-clock reading in microseconds since
  1970-01-01T00:00:00 on its own clock, \<open>utcoffset\<close> its offset from UTC in microseconds
  when it is timezone-aware, \<^term>\<open>None\<close> when it is naive.
\<close>

record datetime =
  wall :: int
  utcoffset :: "int option"

text \<open>
  What the parsers take from the Python runtime, as parameters of the model; \<^term>\<open>None\<close>
  is a raised exception.
  \<^item> \<open>float_str\<close>: \<^verbatim>\<open>float(s)\<close> for a string (raises \<^verbatim>\<open>ValueError\<close>);
  \<^item> \<open>fromisoformat\<close>: \<^verbatim>\<open>datetime.fromisoformat(s)\<close> (raises \<^verbatim>\<open>ValueError\<close>);
  \<^item> \<open>strptime\<close>: \<^verbatim>\<open>datetime.strptime(s, fmt)\<close> (raises \<^verbatim>\<open>ValueError\<close>), a naive datetime;
  \<^item> \<open>strftime\<close>: \<^verbatim>\<open>d.strftime(fmt)\<close>;
  \<^item> \<open>local_timestamp\<close>: the POSIX time in microseconds at which the machine's local
    clock reads the given wall-clock value, which \<^verbatim>\<open>timestamp()\<close> uses for a naive
    datetime (raises \<^verbatim>\<open>OverflowError\<close> out of the platform's range);
  \<^item> \<open>find_pre_text\<close>: \<^verbatim>\<open>BeautifulSoup(html, 'html.parser').find('pre')\<close> and the
    \<^verbatim>\<open>text\<close> of the tag found.
\<close>

record runtime =
  float_str :: "string \<Rightarrow> real option"
  fromisoformat :: "string \<Rightarrow> datetime option"
  strptime :: "string \<Rightarrow> string \<Rightarrow> datetime option"
  strftime :: "datetime \<Rightarrow> string \<Rightarrow> string"
  local_timestamp :: "int \<Rightarrow> int option"
  find_pre_text :: "string \<Rightarrow> string option"

text \<open>\<^verbatim>\<open>float(x)\<close> for a decoded JSON value or a string.\<close>

fun float :: "runtime \<Rightarrow> json \<Rightarrow> exn + real" where
  "float rt (JNum r) = Inr r"
| "float rt (JBool b) = Inr (if b then 1 else 0)"
| "float rt (JStr s) = raise_if_none ValueError (float_str rt s)"
| "float rt JNull = Inl TypeError"
| "float rt (JArr xs) = Inl TypeError"
| "float rt (JObj kvs) = Inl TypeError"

text \<open>Truth value of a decoded JSON value (\<^verbatim>\<open>not x\<close> is its negation).\<close>

fun truthy :: "json \<Rightarrow> bool" where
  "truthy JNull \<longleftrightarrow> False"
| "truthy (JBool b) \<longleftrightarrow> b"
| "truthy (JNum r) \<longleftrightarrow> r \<noteq> 0"
| "truthy (JStr s) \<longleftrightarrow> s \<noteq> []"
| "truthy (JArr xs) \<longleftrightarrow> xs \<noteq> []"
| "truthy (JObj kvs) \<longleftrightarrow> kvs \<noteq> []"

text \<open>\<^verbatim>\<open>d.get(key)\<close> and \<^verbatim>\<open>d.get(key, default)\<close>.\<close>

definition get_default :: "(string \<rightharpoonup> json) \<Rightarrow> string \<Rightarrow> json \<Rightarrow> json" where
  "get_default d k dflt = (case d k of None \<Rightarrow> dflt | Some v \<Rightarrow> v)"

definition get :: "(string \<rightharpoonup> json) \<Rightarrow> string \<Rightarrow> json" where
  "get d k = get_default d k JNull"

text \<open>
  \<^verbatim>\<open>d + timedelta(hours=h)\<close>: the wall clock moves, the timezone stays; the result must
  lie between 0001-01-01T00:00:00 and 9999-12-31T23:59:59.999999.
\<close>

definition add_hours :: "datetime \<Rightarrow> int \<Rightarrow> exn + datetime" where
  "add_hours d h =
     (let w = wall d + h * 3600 * 1000000
      in if w < - 62135596800 * 1000000 \<or> 253402300800 * 1000000 \<le> w then Inl OverflowError
         else Inr (d \<lparr> wall := w \<rparr>))"

text \<open>\<^verbatim>\<open>d.timestamp()\<close>, in microseconds.\<close>

definition timestamp_us :: "runtime \<Rightarrow> datetime \<Rightarrow> exn + int" where
  "timestamp_us rt d =
     (case utcoffset d of
        Some off \<Rightarrow> Inr (wall d - off)
      | None \<Rightarrow> raise_if_none OverflowError (local_timestamp rt (wall d)))"

text \<open>\<^verbatim>\<open>int(t * 1000)\<close> for \<open>t\<close> seconds given in microseconds: truncation towards zero.\<close>

definition millis :: "int \<Rightarrow> int" where
  "millis us = (if 0 \<le> us then us div 1000 else - ((- us) div 1000))"

text \<open>What \<^verbatim>\<open>print\<close> writes: which parser reported which exception.\<close>

datatype diagnostic = Kandilli_line_error exn | AFAD_error exn

section \<open>kandilli.py\<close>

text \<open>
  The body of the \<^verbatim>\<open>try\<close> block of \<^verbatim>\<open>_parse_kandilli_line\<close> (lines 73-135):
  \<open>Inl\<close> is a raised exception, \<open>Inr None\<close> the fall through of a line with fewer
  than nine fields, \<open>Inr (Some e)\<close> the dictionary returned at line 135.
\<close>

definition kandilli_optional_float :: "runtime \<Rightarrow> string \<Rightarrow> exn + real option" where
  "kandilli_optional_float rt s =
     (if s \<noteq> ''-.-'' then and_then (float rt (JStr s)) (\<lambda>v. Inr (Some v)) else Inr None)"

definition parse_kandilli_line_body :: "runtime \<Rightarrow> string \<Rightarrow> exn + earthquake option" where
  "parse_kandilli_line_body rt line =
     (let parts = split line in
      if 9 \<le> length parts then
        let date_str = parts ! 0; time_str = parts ! 1 in
        and_then (float rt (JStr (parts ! 2))) (\<lambda>lat.
        and_then (float rt (JStr (parts ! 3))) (\<lambda>lon.
        and_then (float rt (JStr (parts ! 4))) (\<lambda>depth.
        let md_str = parts ! 5; ml_str = parts ! 6; mw_str = parts ! 7 in
        and_then (kandilli_optional_float rt md_str) (\<lambda>md.
        and_then (kandilli_optional_float rt ml_str) (\<lambda>ml.
        and_then (kandilli_optional_float rt mw_str) (\<lambda>mw.
        let magnitude_value =
              (if ml \<noteq> None then ml
               else if mw \<noteq> None then mw
               else if md \<noteq> None then md
               else Some 0);
            location_end_index = length parts - 1;
            location = join '' '' (take (location_end_index - 8) (drop 8 parts));
            quality = replace ''ILKSEL'' ([CHR 0xC3, CHR 0x84, CHR 0xC2, CHR 0xB0] @ ''LKSEL'')
                        (parts ! location_end_index)
        in
        and_then (raise_if_none ValueError
                    (strptime rt (replace ''.'' ''-'' date_str @ ''T'' @ time_str)
                       ''%Y-%m-%dT%H:%M:%S'')) (\<lambda>timestamp.
        and_then (timestamp_us rt timestamp) (\<lambda>us.
        Inr (Some \<lparr>
          eventID = JStr (''kandilli_'' @ replace ''.'' '''' date_str @ ''_''
                            @ replace '':'' '''' time_str),
          date = strftime rt timestamp ''%Y-%m-%dT%H:%M:%S'',
          latitude = lat,
          longitude = lon,
          depth = depth,
          magnitude = magnitude_value,
          magnitude_details = \<lparr> md = md, ml = ml, mw = mw \<rparr>,
          mag_type = JStr (if ml \<noteq> None then ''ML'' else if mw \<noteq> None then ''MW'' else ''MD''),
          location = JStr location,
          country = Absent, province = Absent, district = Absent, neighborhood = Absent,
          timestamp = millis us,
          quality = quality,
          source = ''Kandilli'' \<rparr>)))))))))
      else Inr None)"

text \<open>
  \<^verbatim>\<open>_parse_kandilli_line\<close>: the returned value and the lines printed. The handler of
  line 136 prints a diagnostic and falls to \<^verbatim>\<open>return None\<close>.
\<close>

definition parse_kandilli_line :: "runtime \<Rightarrow> string \<Rightarrow> earthquake option \<times> diagnostic list" where
  "parse_kandilli_line rt line =
     (case parse_kandilli_line_body rt line of
        Inl e \<Rightarrow> (None, [Kandilli_line_error e])
      | Inr r \<Rightarrow> (r, []))"






section \<open>afad.py\<close>

text \<open>
  \<^verbatim>\<open>x.replace(old, new)\<close> on a decoded JSON value: only a string has the method.
\<close>

fun replace_method :: "json \<Rightarrow> string \<Rightarrow> string \<Rightarrow> exn + string" where
  "replace_method (JStr s) old new = Inr (replace old new s)"
| "replace_method v old new = Inl AttributeError"

text \<open>The body of the \<^verbatim>\<open>try\<close> block of \<^verbatim>\<open>_standardize_afad_quake\<close> (lines 66-107).\<close>

definition standardize_afad_quake_body :: "runtime \<Rightarrow> (string \<rightharpoonup> json) \<Rightarrow> exn + earthquake" where
  "standardize_afad_quake_body rt quake =
     and_then (replace_method (get quake ''date'') ''Z'' ''+00:00'') (\<lambda>s.
     and_then (raise_if_none ValueError (fromisoformat rt s)) (\<lambda>date_obj.
     and_then (add_hours date_obj 3) (\<lambda>local_date_obj.
     let local_date_str = strftime rt local_date_obj ''%Y-%m-%dT%H:%M:%S'' in
     and_then (timestamp_us rt local_date_obj) (\<lambda>us.
     let timestamp = millis us;
         mag_type = get_default quake ''type'' (JStr ''ML'')
     in
     and_then (float rt (get_default quake ''magnitude'' (JNum 0))) (\<lambda>mag_value.
     let magnitude_details = \<lparr>
           md = (if mag_type = JStr ''MD'' then Some mag_value else None),
           ml = (if mag_type = JStr ''ML'' then Some mag_value else None),
           mw = (if mag_type = JStr ''MW'' then Some mag_value else None) \<rparr>
     in
     and_then (float rt (get quake ''latitude'')) (\<lambda>lat.
     and_then (float rt (get quake ''longitude'')) (\<lambda>lon.
     and_then (float rt (get quake ''depth'')) (\<lambda>dep.
     Inr \<lparr>
       eventID = get quake ''eventID'',
       date = local_date_str,
       latitude = lat,
       longitude = lon,
       depth = dep,
       magnitude = Some mag_value,
       magnitude_details = magnitude_details,
       mag_type = mag_type,
       location = get quake ''location'',
       country = Value (get quake ''country''),
       province = Value (get quake ''province''),
       district = Value (get quake ''district''),
       neighborhood = Value (get quake ''neighborhood''),
       timestamp = timestamp,
       quality = (if \<not> truthy (get_default quake ''isEventUpdate'' (JBool False))
                  then [CHR 0xC4, CHR 0xB0] @ ''LKSEL''
                  else ''REV'' @ [CHR 0xC4, CHR 0xB0] @ ''ZE''),
       source = ''AFAD'' \<rparr>))))))))"

text \<open>
  \<^verbatim>\<open>_standardize_afad_quake\<close>: the returned value and the lines printed (the handler
  of line 108 prints a diagnostic and returns \<^verbatim>\<open>None\<close>).
\<close>

definition standardize_afad_quake ::
  "runtime \<Rightarrow> (string \<rightharpoonup> json) \<Rightarrow> earthquake option \<times> diagnostic list" where
  "standardize_afad_quake rt quake =
     (case standardize_afad_quake_body rt quake of
        Inl e \<Rightarrow> (None, [AFAD_error e])
      | Inr earthquake \<Rightarrow> (Some earthquake, []))"



section \<open>data\_handler.py and visualization.py: the filter\<close>

text \<open>\<^verbatim>\<open>MARMARA_BOUNDS\<close> of \<^verbatim>\<open>constants.py\<close>.\<close>

definition min_lat :: real where "min_lat = 39.5"
definition max_lat :: real where "max_lat = 41.5"
definition min_lon :: real where "min_lon = 26.0"
definition max_lon :: real where "max_lon = 31.0"

definition is_in_marmara_region :: "real \<Rightarrow> real \<Rightarrow> bool" where
  "is_in_marmara_region lat lon \<longleftrightarrow>
     (min_lat \<le> lat \<and> lat \<le> max_lat) \<and> (min_lon \<le> lon \<and> lon \<le> max_lon)"

text \<open>
  \<^verbatim>\<open>df['magnitude'] >= min_magnitude\<close>: a comparison with a missing magnitude (NaN)
  is false.
\<close>

definition magnitude_ge :: "earthquake \<Rightarrow> real \<Rightarrow> bool" where
  "magnitude_ge row min_magnitude \<longleftrightarrow>
     (case magnitude row of None \<Rightarrow> False | Some m \<Rightarrow> min_magnitude \<le> m)"

text \<open>
  \<^verbatim>\<open>filter_data\<close> on the rows of the frame; \<open>''Marmara B\<close>\<^verbatim>\<open>\xc3\xb6\<close>\<open>lgesi''\<close> is the
  UTF-8 text of the region name at line 85.
\<close>

definition marmara_bolgesi :: string where
  "marmara_bolgesi = ''Marmara B'' @ [CHR 0xC3, CHR 0xB6] @ ''lgesi''"

definition filter_data :: "earthquake list \<Rightarrow> real \<Rightarrow> string \<Rightarrow> earthquake list" where
  "filter_data df min_magnitude region =
     (let filtered_df = filter (\<lambda>row. magnitude_ge row min_magnitude) df
      in if region = marmara_bolgesi
         then filter (\<lambda>row. is_in_marmara_region (latitude row) (longitude row)) filtered_df
         else filtered_df)"

section \<open>A sample runtime\<close>

text \<open>
  A concrete runtime on which the parsers can be run: each function below agrees with
  CPython (and BeautifulSoup) on the plain inputs it accepts and rejects everything
  else. The theorems hold for every runtime; this one supplies the concrete records.
\<close>

definition isdigit :: "char \<Rightarrow> bool" where
  "isdigit c \<longleftrightarrow> 48 \<le> (of_char c :: nat) \<and> (of_char c :: nat) \<le> 57"

definition digits_value :: "string \<Rightarrow> nat" where
  "digits_value s = foldl (\<lambda>n c. 10 * n + (of_char c - 48)) 0 s"

text \<open>Decimal literals: an optional sign, digits, an optional point and digits.\<close>

definition sample_float_unsigned :: "string \<Rightarrow> real option" where
  "sample_float_unsigned s =
     (let ip = takeWhile isdigit s; rest = dropWhile isdigit s in
      case rest of
        [] \<Rightarrow> if ip = [] then None else Some (real (digits_value ip))
      | c # fp \<Rightarrow>
          if c = CHR ''.'' \<and> list_all isdigit fp \<and> (ip \<noteq> [] \<or> fp \<noteq> [])
          then Some (real (digits_value ip) + real (digits_value fp) / 10 ^ length fp)
          else None)"

definition sample_float :: "string \<Rightarrow> real option" where
  "sample_float s =
     (case s of
        [] \<Rightarrow> None
      | c # cs \<Rightarrow>
          if c = CHR ''-'' then map_option uminus (sample_float_unsigned cs)
          else if c = CHR ''+'' then sample_float_unsigned cs
          else sample_float_unsigned s)"

text \<open>Days from 1970-01-01 to a date of the proleptic Gregorian calendar, and back.\<close>

definition days_from_civil :: "int \<Rightarrow> int \<Rightarrow> int \<Rightarrow> int" where
  "days_from_civil y m d =
     (let y' = (if m \<le> 2 then y - 1 else y);
          era = y' div 400;
          yoe = y' - era * 400;
          doy = (153 * (if 2 < m then m - 3 else m + 9) + 2) div 5 + d - 1;
          doe = yoe * 365 + yoe div 4 - yoe div 100 + doy
      in era * 146097 + doe - 719468)"

definition civil_from_days :: "int \<Rightarrow> int \<times> int \<times> int" where
  "civil_from_days z =
     (let z' = z + 719468;
          era = z' div 146097;
          doe = z' - era * 146097;
          yoe = (doe - doe div 1460 + doe div 36524 - doe div 146096) div 365;
          doy = doe - (365 * yoe + yoe div 4 - yoe div 100);
          mp = (5 * doy + 2) div 153;
          d = doy - (153 * mp + 2) div 5 + 1;
          m = (if mp < 10 then mp + 3 else mp - 9);
          y = yoe + era * 400
      in (if m \<le> 2 then y + 1 else y, m, d))"

definition days_in_month :: "int \<Rightarrow> int \<Rightarrow> int" where
  "days_in_month y m =
     (if m = 2 then (if y mod 4 = 0 \<and> (y mod 100 \<noteq> 0 \<or> y mod 400 = 0) then 29 else 28)
      else if m = 4 \<or> m = 6 \<or> m = 9 \<or> m = 11 then 30 else 31)"

text \<open>A wall-clock reading written as \<^verbatim>\<open>YYYY-MM-DDTHH:MM:SS\<close>, in microseconds.\<close>

definition sample_wall :: "string \<Rightarrow> int option" where
  "sample_wall s =
     (if length s = 19 \<and> s ! 4 = CHR ''-'' \<and> s ! 7 = CHR ''-'' \<and> s ! 10 = CHR ''T''
         \<and> s ! 13 = CHR '':'' \<and> s ! 16 = CHR '':''
         \<and> list_all isdigit (take 4 s @ take 2 (drop 5 s) @ take 2 (drop 8 s)
                              @ take 2 (drop 11 s) @ take 2 (drop 14 s) @ take 2 (drop 17 s))
      then
        let y = int (digits_value (take 4 s)); m = int (digits_value (take 2 (drop 5 s)));
            d = int (digits_value (take 2 (drop 8 s)));
            hh = int (digits_value (take 2 (drop 11 s)));
            mm = int (digits_value (take 2 (drop 14 s)));
            ss = int (digits_value (take 2 (drop 17 s)))
        in if 1 \<le> y \<and> 1 \<le> m \<and> m \<le> 12 \<and> 1 \<le> d \<and> d \<le> days_in_month y m
              \<and> hh < 24 \<and> mm < 60 \<and> ss < 60
           then Some ((days_from_civil y m d * 86400 + hh * 3600 + mm * 60 + ss) * 1000000)
           else None
      else None)"

text \<open>An offset written as \<^verbatim>\<open>+HH:MM\<close> or \<^verbatim>\<open>-HH:MM\<close>, in microseconds.\<close>

definition sample_offset :: "string \<Rightarrow> int option" where
  "sample_offset s =
     (if length s = 6 \<and> (s ! 0 = CHR ''+'' \<or> s ! 0 = CHR ''-'') \<and> s ! 3 = CHR '':''
         \<and> list_all isdigit (take 2 (drop 1 s) @ take 2 (drop 4 s))
      then
        let hh = int (digits_value (take 2 (drop 1 s)));
            mm = int (digits_value (take 2 (drop 4 s)))
        in if hh < 24 \<and> mm < 60
           then Some ((if s ! 0 = CHR ''-'' then - 1 else 1) * (hh * 3600 + mm * 60) * 1000000)
           else None
      else None)"

definition sample_fromisoformat :: "string \<Rightarrow> datetime option" where
  "sample_fromisoformat s =
     (case sample_wall (take 19 s) of
        None \<Rightarrow> None
      | Some w \<Rightarrow>
          if length s = 19 then Some \<lparr> wall = w, utcoffset = None \<rparr>
          else (case sample_offset (drop 19 s) of
                  None \<Rightarrow> None
                | Some off \<Rightarrow> Some \<lparr> wall = w, utcoffset = Some off \<rparr>))"

definition sample_strptime :: "string \<Rightarrow> string \<Rightarrow> datetime option" where
  "sample_strptime s fmt =
     (if fmt = ''%Y-%m-%dT%H:%M:%S''
      then map_option (\<lambda>w. \<lparr> wall = w, utcoffset = None \<rparr>) (sample_wall s)
      else None)"

text \<open>A number in decimal, zero-padded to a width.\<close>

fun show_digits :: "nat \<Rightarrow> nat \<Rightarrow> string" where
  "show_digits 0 n = []"
| "show_digits (Suc w) n = show_digits w (n div 10) @ [char_of (48 + n mod 10)]"

definition sample_strftime :: "datetime \<Rightarrow> string \<Rightarrow> string" where
  "sample_strftime d fmt =
     (let secs = wall d div 1000000;
          days = secs div 86400;
          rem = secs mod 86400;
          ymd = civil_from_days days
      in show_digits 4 (nat (fst ymd)) @ ''-'' @ show_digits 2 (nat (fst (snd ymd))) @ ''-''
         @ show_digits 2 (nat (snd (snd ymd))) @ ''T'' @ show_digits 2 (nat (rem div 3600))
         @ '':'' @ show_digits 2 (nat (rem mod 3600 div 60)) @ '':''
         @ show_digits 2 (nat (rem mod 60)))"

text \<open>The machine's clock is Turkey's, three hours ahead of UTC all year.\<close>

definition sample_local_timestamp :: "int \<Rightarrow> int option" where
  "sample_local_timestamp w = Some (w - 3 * 3600 * 1000000)"

text \<open>The text between the first \<^verbatim>\<open><pre>\<close> and the next \<^verbatim>\<open></pre>\<close> (or the end).\<close>

fun text_after :: "string \<Rightarrow> string \<Rightarrow> string option" where
  "text_after m [] = None"
| "text_after m (c # cs) =
     (if startswith (c # cs) m then Some (drop (length m) (c # cs)) else text_after m cs)"

fun text_before :: "string \<Rightarrow> string \<Rightarrow> string" where
  "text_before m [] = []"
| "text_before m (c # cs) = (if startswith (c # cs) m then [] else c # text_before m cs)"

definition sample_find_pre_text :: "string \<Rightarrow> string option" where
  "sample_find_pre_text html = map_option (text_before ''</pre>'') (text_after ''<pre>'' html)"

definition sample_rt :: runtime where
  "sample_rt = \<lparr> float_str = sample_float, fromisoformat = sample_fromisoformat,
     strptime = sample_strptime, strftime = sample_strftime,
     local_timestamp = sample_local_timestamp, find_pre_text = sample_find_pre_text \<rparr>"

text \<open>Sample raw records: Kandilli lines and AFAD dictionaries.\<close>

definition kandilli_line_ml :: string where
  "kandilli_line_ml =
     ''2024.01.15 10:30:45  40.7000   29.0000        7.0      -.-  3.2  -.-   MARMARA DENIZI   ILKSEL''"

definition kandilli_line_md_ml :: string where
  "kandilli_line_md_ml =
     ''2024.01.15 10:31:20  38.2500   38.7500        5.4      3.1  3.3  -.-   PUTURGE (MALATYA)   ILKSEL''"

definition kandilli_line_no_magnitude :: string where
  "kandilli_line_no_magnitude =
     ''2024.01.15 10:32:10  37.1000   28.5000        9.8      -.-  -.-  -.-   ULA (MUGLA)   ILKSEL''"

definition kandilli_line_bad_latitude :: string where
  "kandilli_line_bad_latitude =
     ''2024.01.15 10:33:00  4O.7000   29.0000        7.0      -.-  3.2  -.-   MARMARA DENIZI   ILKSEL''"



definition afad_quake :: "string \<rightharpoonup> json" where
  "afad_quake = [''eventID'' \<mapsto> JStr ''612345'', ''date'' \<mapsto> JStr ''2024-01-15T07:30:45Z'',
     ''latitude'' \<mapsto> JStr ''40.72'', ''longitude'' \<mapsto> JStr ''29.03'', ''depth'' \<mapsto> JStr ''7.1'',
     ''type'' \<mapsto> JStr ''MW'', ''magnitude'' \<mapsto> JStr ''3.4'',
     ''location'' \<mapsto> JStr ''Marmara Denizi'', ''isEventUpdate'' \<mapsto> JBool False,
     ''source'' \<mapsto> JStr ''AFAD'']"

definition afad_quake_no_magnitude :: "string \<rightharpoonup> json" where
  "afad_quake_no_magnitude = [''eventID'' \<mapsto> JStr ''612346'',
     ''date'' \<mapsto> JStr ''2024-01-15T07:31:00'', ''latitude'' \<mapsto> JStr ''38.25'',
     ''longitude'' \<mapsto> JStr ''38.75'', ''depth'' \<mapsto> JNum 5, ''source'' \<mapsto> JStr ''AFAD'']"

definition afad_quake_bad_depth :: "string \<rightharpoonup> json" where
  "afad_quake_bad_depth = [''eventID'' \<mapsto> JStr ''612347'',
     ''date'' \<mapsto> JStr ''2024-01-15T07:32:00'', ''latitude'' \<mapsto> JStr ''38.25'',
     ''longitude'' \<mapsto> JStr ''38.75'', ''depth'' \<mapsto> JNull, ''magnitude'' \<mapsto> JStr ''2.1'',
     ''source'' \<mapsto> JStr ''AFAD'']"

text \<open>What the parsers return for the sample records on the sample runtime.\<close>

definition kandilli_quality :: string where
  "kandilli_quality = [CHR 0xC3, CHR 0x84, CHR 0xC2, CHR 0xB0] @ ''LKSEL''"

definition kandilli_event_ml :: earthquake where
  "kandilli_event_ml = \<lparr> eventID = JStr ''kandilli_20240115_103045'',
     date = ''2024-01-15T10:30:45'', latitude = 40.7, longitude = 29, depth = 7,
     magnitude = Some 3.2, magnitude_details = \<lparr> md = None, ml = Some 3.2, mw = None \<rparr>,
     mag_type = JStr ''ML'', location = JStr ''MARMARA DENIZI'', country = Absent,
     province = Absent, district = Absent, neighborhood = Absent, timestamp = 1705303845000,
     quality = kandilli_quality, source = ''Kandilli'' \<rparr>"

definition kandilli_event_md_ml :: earthquake where
  "kandilli_event_md_ml = \<lparr> eventID = JStr ''kandilli_20240115_103120'',
     date = ''2024-01-15T10:31:20'', latitude = 38.25, longitude = 38.75, depth = 5.4,
     magnitude = Some 3.3, magnitude_details = \<lparr> md = Some 3.1, ml = Some 3.3, mw = None \<rparr>,
     mag_type = JStr ''ML'', location = JStr ''PUTURGE (MALATYA)'', country = Absent,
     province = Absent, district = Absent, neighborhood = Absent, timestamp = 1705303880000,
     quality = kandilli_quality, source = ''Kandilli'' \<rparr>"

definition kandilli_event_no_magnitude :: earthquake where
  "kandilli_event_no_magnitude = \<lparr> eventID = JStr ''kandilli_20240115_103210'',
     date = ''2024-01-15T10:32:10'', latitude = 37.1, longitude = 28.5, depth = 9.8,
     magnitude = Some 0, magnitude_details = \<lparr> md = None, ml = None, mw = None \<rparr>,
     mag_type = JStr ''MD'', location = JStr ''ULA (MUGLA)'', country = Absent,
     province = Absent, district = Absent, neighborhood = Absent, timestamp = 1705303930000,
     quality = kandilli_quality, source = ''Kandilli'' \<rparr>"

definition afad_quality :: string where
  "afad_quality = [CHR 0xC4, CHR 0xB0] @ ''LKSEL''"

definition afad_event :: earthquake where
  "afad_event = \<lparr> eventID = JStr ''612345'', date = ''2024-01-15T10:30:45'',
     latitude = 40.72, longitude = 29.03, depth = 7.1, magnitude = Some 3.4,
     magnitude_details = \<lparr> md = None, ml = None, mw = Some 3.4 \<rparr>, mag_type = JStr ''MW'',
     location = JStr ''Marmara Denizi'', country = Value JNull, province = Value JNull,
     district = Value JNull, neighborhood = Value JNull, timestamp = 1705314645000,
     quality = afad_quality, source = ''AFAD'' \<rparr>"

definition afad_event_no_magnitude :: earthquake where
  "afad_event_no_magnitude = \<lparr> eventID = JStr ''612346'', date = ''2024-01-15T10:31:00'',
     latitude = 38.25, longitude = 38.75, depth = 5, magnitude = Some 0,
     magnitude_details = \<lparr> md = None, ml = Some 0, mw = None \<rparr>, mag_type = JStr ''ML'',
     location = JNull, country = Value JNull, province = Value JNull,
     district = Value JNull, neighborhood = Value JNull, timestamp = 1705303860000,
     quality = afad_quality, source = ''AFAD'' \<rparr>"






section \<open>The specification's words\<close>

text \<open>
  Section 4.4: an event passes the filter when its magnitude is at least the minimum
  and, if the fixed region is selected, its coordinates lie in the closed box.
\<close>

definition spec_passes_filter :: "real \<Rightarrow> string \<Rightarrow> earthquake \<Rightarrow> bool" where
  "spec_passes_filter min_magnitude region e \<longleftrightarrow>
     (case magnitude e of None \<Rightarrow> False | Some m \<Rightarrow> min_magnitude \<le> m)
     \<and> (if region = marmara_bolgesi
         then latitude e \<in> {39.5 .. 41.5} \<and> longitude e \<in> {26 .. 31}
         else True)"

text \<open>
  Section 4.1, the input constraints of a Kandilli line: at least nine fields; latitude,
  longitude and depth parse; each magnitude column is the placeholder \<^verbatim>\<open>-.-\<close> or
  parses; date and time parse and have a POSIX timestamp.
\<close>

definition kandilli_time_field :: "string \<Rightarrow> string" where
  "kandilli_time_field line = replace ''.'' ''-'' (split line ! 0) @ ''T'' @ split line ! 1"

definition kandilli_required_ok :: "runtime \<Rightarrow> string \<Rightarrow> bool" where
  "kandilli_required_ok rt line \<longleftrightarrow>
     9 \<le> length (split line)
     \<and> float_str rt (split line ! 2) \<noteq> None
     \<and> float_str rt (split line ! 3) \<noteq> None
     \<and> float_str rt (split line ! 4) \<noteq> None
     \<and> (if split line ! 5 = ''-.-'' then True else float_str rt (split line ! 5) \<noteq> None)
     \<and> (if split line ! 6 = ''-.-'' then True else float_str rt (split line ! 6) \<noteq> None)
     \<and> (if split line ! 7 = ''-.-'' then True else float_str rt (split line ! 7) \<noteq> None)
     \<and> (case strptime rt (kandilli_time_field line) ''%Y-%m-%dT%H:%M:%S'' of
           None \<Rightarrow> False
         | Some d \<Rightarrow> \<not> isl (timestamp_us rt d))"

text \<open>
  The same for an AFAD record: the date is a string that parses, three hours later is
  still a date and has a POSIX timestamp; latitude, longitude and depth convert to a
  float; the magnitude, 0 when the key is absent, converts to a float.
\<close>

definition afad_time_ok :: "runtime \<Rightarrow> json \<Rightarrow> bool" where
  "afad_time_ok rt v \<longleftrightarrow>
     (case v of
        JStr s \<Rightarrow>
          (case fromisoformat rt (replace ''Z'' ''+00:00'' s) of
             None \<Rightarrow> False
           | Some d \<Rightarrow> (case add_hours d 3 of Inl e \<Rightarrow> False | Inr d' \<Rightarrow> \<not> isl (timestamp_us rt d')))
      | _ \<Rightarrow> False)"

definition afad_required_ok :: "runtime \<Rightarrow> (string \<rightharpoonup> json) \<Rightarrow> bool" where
  "afad_required_ok rt quake \<longleftrightarrow>
     afad_time_ok rt (get quake ''date'')
     \<and> \<not> isl (float rt (get_default quake ''magnitude'' (JNum 0)))
     \<and> \<not> isl (float rt (get quake ''latitude''))
     \<and> \<not> isl (float rt (get quake ''longitude''))
     \<and> \<not> isl (float rt (get quake ''depth''))"

text \<open>The number of entries of a \<^verbatim>\<open>magnitude_details\<close> dictionary that are not \<^verbatim>\<open>None\<close>.\<close>

definition non_null_entries :: "magnitude_details \<Rightarrow> nat" where
  "non_null_entries d = length (filter (\<lambda>v. v \<noteq> None) [md d, ml d, mw d])"




section \<open>Properties of the duplicate resolver\<close>

lemma sqrt_less_tenth: "sqrt x < 0.1 \<longleftrightarrow> x < 0.01"
proof -
  have e: "sqrt (0.01::real) = 0.1"
    by (rule real_sqrt_unique) (simp_all add: power2_eq_square)
  have "sqrt x < 0.1 \<longleftrightarrow> sqrt x < sqrt 0.01"
    by (simp only: e)
  also have "\<dots> \<longleftrightarrow> x < 0.01"
    by (rule real_sqrt_less_iff)
  finally show ?thesis .
qed

lemma time_diff_less: "time_diff a b < 60 \<longleftrightarrow> \<bar>timestamp a - timestamp b\<bar> < 60000"
proof -
  define d where "d = timestamp a - timestamp b"
  have "time_diff a b = real_of_int \<bar>d\<bar> / 1000"
    by (simp add: time_diff_def d_def)
  also have "\<dots> < 60 \<longleftrightarrow> real_of_int \<bar>d\<bar> < 60000" by simp
  also have "\<dots> \<longleftrightarrow> \<bar>d\<bar> < 60000" by linarith
  finally show ?thesis unfolding d_def .
qed

lemma is_duplicate_iff:
  "is_duplicate a b \<longleftrightarrow>
     \<bar>timestamp a - timestamp b\<bar> < 60000
     \<and> (latitude a - latitude b)\<^sup>2 + (longitude a - longitude b)\<^sup>2 < 0.01
     \<and> (case magnitude a of None \<Rightarrow> False
         | Some x \<Rightarrow> (case magnitude b of None \<Rightarrow> False | Some y \<Rightarrow> \<bar>x - y\<bar> < 0.5))"
  unfolding is_duplicate_def time_diff_less distance_def sqrt_less_tenth mag_diff_def
  by (cases "magnitude a"; cases "magnitude b") simp_all

lemma is_duplicate_sym: "is_duplicate a b \<longleftrightarrow> is_duplicate b a"
proof -
  have "(latitude a - latitude b)\<^sup>2 = (latitude b - latitude a)\<^sup>2"
    and "(longitude a - longitude b)\<^sup>2 = (longitude b - longitude a)\<^sup>2"
    by (simp_all add: power2_commute)
  moreover have "\<bar>timestamp a - timestamp b\<bar> = \<bar>timestamp b - timestamp a\<bar>"
    by simp
  moreover have "\<bar>x - y\<bar> = \<bar>y - x\<bar>" for x y :: real
    by simp
  ultimately show ?thesis
    unfolding is_duplicate_iff
    by (cases "magnitude a"; cases "magnitude b") simp_all
qed

lemma is_duplicate_spec: "is_duplicate a b \<longleftrightarrow> spec_same_event a b"
  unfolding is_duplicate_iff spec_same_event_def sqrt_less_tenth
  by (cases "magnitude a"; cases "magnitude b") simp_all

text \<open>The inner loop adds exactly the indices of the other rows that match \<open>row\<close>.\<close>

lemma mark_duplicates_enumerate:
  "mark_duplicates (enumerate k ys) i row used =
     used \<union> {j. k \<le> j \<and> j < k + length ys \<and> j \<noteq> i \<and> is_duplicate row (ys ! (j - k))}"
proof (induction ys arbitrary: k used)
  case Nil
  then show ?case by (auto simp add: mark_duplicates_def)
next
  case (Cons y ys)
  have step: "mark_duplicates (enumerate k (y # ys)) i row used =
      mark_duplicates (enumerate (Suc k) ys) i row
        (if i = k \<or> k \<in> used then used
         else if is_duplicate row y then insert k used else used)"
    by (simp add: mark_duplicates_def)
  have idx: "(y # ys) ! (j - k) = ys ! (j - Suc k)" if "Suc k \<le> j" for j
    using that by (simp add: Suc_diff_le)
  have split: "{j. k \<le> j \<and> j < k + length (y # ys) \<and> j \<noteq> i \<and> is_duplicate row ((y # ys) ! (j - k))}
      = {j. j = k \<and> j \<noteq> i \<and> is_duplicate row y}
        \<union> {j. Suc k \<le> j \<and> j < Suc k + length ys \<and> j \<noteq> i \<and> is_duplicate row (ys ! (j - Suc k))}"
    (is "?L = ?A \<union> ?B")
  proof (rule set_eqI)
    fix j
    show "j \<in> ?L \<longleftrightarrow> j \<in> ?A \<union> ?B"
    proof (cases "j = k")
      case True
      then show ?thesis by simp
    next
      case False
      then have "k \<le> j \<longleftrightarrow> Suc k \<le> j" by arith
      with False show ?thesis using idx [of j] by auto
    qed
  qed
  show ?case
    unfolding step Cons.IH split by auto
qed


lemma mark_duplicates_frame:
  "mark_duplicates (enumerate 0 xs) i row used =
     used \<union> {j. j < length xs \<and> j \<noteq> i \<and> is_duplicate row (xs ! j)}"
  using mark_duplicates_enumerate [of 0 xs i row used] by simp

lemma resolver_inv_step:
  assumes inv: "resolver_inv xs k st" and k: "k < length xs"
  shows "resolver_inv xs (Suc k) (visit_row (enumerate 0 xs) (k, xs ! k) st)"
proof (cases "k \<in> snd st")
  case True
  from inv obtain reps where
    a: "fst st = map ((!) xs) reps" and b: "\<forall>r \<in> set reps. r < k" and
    c: "\<forall>r \<in> set reps. \<forall>j < length xs. j \<notin> snd st \<and> j \<noteq> r \<longrightarrow> \<not> is_duplicate (xs ! r) (xs ! j)" and
    d: "\<forall>b < length reps. \<forall>a < b. \<not> is_duplicate (xs ! (reps ! a)) (xs ! (reps ! b))"
    unfolding resolver_inv_def by blast
  from b have b': "\<forall>r \<in> set reps. r < Suc k" by auto
  have "resolver_inv xs (Suc k) st"
    unfolding resolver_inv_def using a b' c d by blast
  with True show ?thesis by (simp add: visit_row_def)
next
  case False
  from inv obtain reps where
    u: "fst st = map ((!) xs) reps" and
    lt: "\<forall>r \<in> set reps. r < k" and
    clean: "\<forall>r \<in> set reps. \<forall>j < length xs. j \<notin> snd st \<and> j \<noteq> r \<longrightarrow> \<not> is_duplicate (xs ! r) (xs ! j)" and
    pw: "\<forall>b < length reps. \<forall>a < b. \<not> is_duplicate (xs ! (reps ! a)) (xs ! (reps ! b))"
    unfolding resolver_inv_def by blast
  define used' where "used' = snd st \<union> {j. j < length xs \<and> j \<noteq> k \<and> is_duplicate (xs ! k) (xs ! j)}"
  have res: "visit_row (enumerate 0 xs) (k, xs ! k) st = (fst st @ [xs ! k], used')"
    using False by (simp add: visit_row_def mark_duplicates_frame used'_def)
  let ?reps = "reps @ [k]"
  have 1: "fst st @ [xs ! k] = map ((!) xs) ?reps"
    by (simp add: u)
  have 3: "\<forall>r \<in> set ?reps. r < Suc k"
    using lt by auto
  have 4: "\<forall>r \<in> set ?reps. \<forall>j < length xs. j \<notin> used' \<and> j \<noteq> r \<longrightarrow> \<not> is_duplicate (xs ! r) (xs ! j)"
    using clean by (auto simp: used'_def)
  have 5: "\<forall>b < length ?reps. \<forall>a < b. \<not> is_duplicate (xs ! (?reps ! a)) (xs ! (?reps ! b))"
  proof (intro allI impI)
    fix b a
    assume b: "b < length ?reps" and a: "a < b"
    show "\<not> is_duplicate (xs ! (?reps ! a)) (xs ! (?reps ! b))"
    proof (cases "b < length reps")
      case True
      with a pw show ?thesis by (simp add: nth_append)
    next
      case nb: False
      with b have bk: "?reps ! b = k" and al: "a < length reps"
        using a by (auto simp: nth_append)
      from al have mem: "reps ! a \<in> set reps" by simp
      with lt have "reps ! a \<noteq> k" by auto
      with clean [rule_format, OF mem k] False have "\<not> is_duplicate (xs ! (reps ! a)) (xs ! k)"
        by simp
      with bk al show ?thesis by (simp add: nth_append)
    qed
  qed
  have "resolver_inv xs (Suc k) (fst st @ [xs ! k], used')"
    unfolding resolver_inv_def fst_conv snd_conv
    by (rule exI [of _ ?reps]) (intro conjI 1 3 4 5)
  then show ?thesis
    by (simp only: res)
qed

lemma resolver_inv_fold:
  "resolver_inv xs (length pre) st \<Longrightarrow> xs = pre @ ys \<Longrightarrow>
     resolver_inv xs (length xs) (fold (visit_row (enumerate 0 xs)) (enumerate (length pre) ys) st)"
proof (induction ys arbitrary: pre st)
  case Nil
  then show ?case by simp
next
  case (Cons y ys)
  have y: "xs ! length pre = y" and lt: "length pre < length xs"
    using Cons.prems(2) by simp_all
  have "resolver_inv xs (Suc (length pre)) (visit_row (enumerate 0 xs) (length pre, y) st)"
    using resolver_inv_step [OF Cons.prems(1) lt] y by simp
  then have "resolver_inv xs (length (pre @ [y])) (visit_row (enumerate 0 xs) (length pre, y) st)"
    by simp
  moreover have "xs = (pre @ [y]) @ ys"
    using Cons.prems(2) by simp
  ultimately have "resolver_inv xs (length xs)
      (fold (visit_row (enumerate 0 xs)) (enumerate (length (pre @ [y])) ys)
         (visit_row (enumerate 0 xs) (length pre, y) st))"
    by (rule Cons.IH)
  then show ?case by simp
qed

lemma resolver_inv_final:
  "resolver_inv xs (length xs) (fold (visit_row (enumerate 0 xs)) (enumerate 0 xs) ([], {}))"
proof -
  have "resolver_inv xs (length ([]::earthquake list)) ([], {})"
    unfolding resolver_inv_def by (intro exI [of _ "[]"]) simp
  from resolver_inv_fold [OF this, of xs] show ?thesis by simp
qed

lemma deduplicate_pair:
  "deduplicate_earthquakes [a, b] = (if is_duplicate a b then [a] else [a, b])"
  using is_duplicate_sym [of a b]
  by (simp add: deduplicate_earthquakes_def visit_row_def mark_duplicates_def)

lemma deduplicate_triple:
  "is_duplicate a b \<Longrightarrow> \<not> is_duplicate a c \<Longrightarrow> deduplicate_earthquakes [a, b, c] = [a, c]"
  using is_duplicate_sym [of a c]
  by (simp add: deduplicate_earthquakes_def visit_row_def mark_duplicates_def)


lemma distance_shifted: "distance quake0 (shifted ms 0.05 m) = 0.05"
proof -
  have "sqrt ((0.05::real)\<^sup>2) = 0.05"
    by (simp only: real_sqrt_abs) simp
  moreover have "(latitude quake0 - latitude (shifted ms 0.05 m))\<^sup>2
      + (longitude quake0 - longitude (shifted ms 0.05 m))\<^sup>2 = (0.05::real)\<^sup>2"
    by (simp add: quake0_def shifted_def power2_eq_square)
  ultimately show ?thesis
    by (simp only: distance_def)
qed

lemma shifted_simps:
  "timestamp (shifted ms d m) = 1705314645000 + ms"
  "latitude (shifted ms d m) = 40.70 + d"
  "longitude (shifted ms d m) = 29"
  "magnitude (shifted ms d m) = m"
  "timestamp quake0 = 1705314645000"
  "latitude quake0 = 40.70"
  "longitude quake0 = 29"
  "magnitude quake0 = Some 3.2"
  by (simp_all add: quake0_def shifted_def)


text \<open>
  Claim C1. The test of line 49 is the three-condition predicate of the specification:
  timestamps strictly less than 60 seconds apart, degree-space distance strictly below
  0.1, magnitudes strictly less than 0.5 apart, and no match when either magnitude is
  missing. When the row at index \<open>i\<close> is kept, the rows consumed are exactly the other
  rows that satisfy the predicate with it; a two-row input collapses to its first row
  exactly when the rows match. In particular two rows 30 s and 0.05 degrees apart
  collapse for magnitudes 3.2 and 3.4 and stay two for magnitudes 3.2 and 4.0.
\<close>

theorem resolver_matching_predicate:
  "(is_duplicate A B \<longleftrightarrow> spec_same_event A B)
   \<and> mark_duplicates (enumerate 0 xs) i row used
       = used \<union> {j. j < length xs \<and> j \<noteq> i \<and> spec_same_event row (xs ! j)}
   \<and> deduplicate_earthquakes [A, B] = (if spec_same_event A B then [A] else [A, B])
   \<and> (magnitude A = None \<or> magnitude B = None \<longrightarrow> \<not> is_duplicate A B)
   \<and> (\<bar>timestamp A - timestamp B\<bar> = 30 * 1000 \<and> distance A B = 0.05
        \<and> magnitude A = Some 3.2 \<and> magnitude B = Some 3.4
        \<longrightarrow> deduplicate_earthquakes [A, B] = [A])
   \<and> (\<bar>timestamp A - timestamp B\<bar> = 30 * 1000 \<and> distance A B = 0.05
        \<and> magnitude A = Some 3.2 \<and> magnitude B = Some 4.0
        \<longrightarrow> deduplicate_earthquakes [A, B] = [A, B])"
proof (intro conjI impI)
  show "is_duplicate A B \<longleftrightarrow> spec_same_event A B"
    by (rule is_duplicate_spec)
  show "mark_duplicates (enumerate 0 xs) i row used
       = used \<union> {j. j < length xs \<and> j \<noteq> i \<and> spec_same_event row (xs ! j)}"
    by (simp only: mark_duplicates_frame is_duplicate_spec)
  show "deduplicate_earthquakes [A, B] = (if spec_same_event A B then [A] else [A, B])"
    by (simp only: deduplicate_pair is_duplicate_spec)
  show "\<not> is_duplicate A B" if "magnitude A = None \<or> magnitude B = None"
    using that by (auto simp: is_duplicate_def mag_diff_def split: option.splits)
next
  assume h: "\<bar>timestamp A - timestamp B\<bar> = 30 * 1000 \<and> distance A B = 0.05
        \<and> magnitude A = Some 3.2 \<and> magnitude B = Some 3.4"
  then have "time_diff A B < 60"
    by (simp add: time_diff_less)
  with h have "is_duplicate A B"
    by (simp add: is_duplicate_def mag_diff_def)
  then show "deduplicate_earthquakes [A, B] = [A]"
    by (simp add: deduplicate_pair)
next
  assume h: "\<bar>timestamp A - timestamp B\<bar> = 30 * 1000 \<and> distance A B = 0.05
        \<and> magnitude A = Some 3.2 \<and> magnitude B = Some 4.0"
  then have "\<not> is_duplicate A B"
    by (simp add: is_duplicate_def mag_diff_def)
  then show "deduplicate_earthquakes [A, B] = [A, B]"
    by (simp add: deduplicate_pair)
qed

theorem resolver_matching_predicate_witness:
  "deduplicate_earthquakes [quake0, shifted 30000 0.05 (Some 3.4)] = [quake0]
   \<and> deduplicate_earthquakes [quake0, shifted 30000 0.05 (Some 4.0)]
       = [quake0, shifted 30000 0.05 (Some 4.0)]
   \<and> \<not> is_duplicate quake0 (shifted 30000 0.05 None)"
proof -
  have t: "\<bar>timestamp quake0 - timestamp (shifted 30000 0.05 m)\<bar> = 30 * 1000" for m
    by (simp add: shifted_simps)
  have a: "\<bar>timestamp quake0 - timestamp (shifted 30000 0.05 (Some 3.4))\<bar> = 30 * 1000
      \<and> distance quake0 (shifted 30000 0.05 (Some 3.4)) = 0.05
      \<and> magnitude quake0 = Some 3.2 \<and> magnitude (shifted 30000 0.05 (Some 3.4)) = Some 3.4"
    using t by (simp only: distance_shifted shifted_simps)
  have b: "\<bar>timestamp quake0 - timestamp (shifted 30000 0.05 (Some 4.0))\<bar> = 30 * 1000
      \<and> distance quake0 (shifted 30000 0.05 (Some 4.0)) = 0.05
      \<and> magnitude quake0 = Some 3.2 \<and> magnitude (shifted 30000 0.05 (Some 4.0)) = Some 4.0"
    using t by (simp only: distance_shifted shifted_simps)
  have c: "magnitude quake0 = None \<or> magnitude (shifted 30000 0.05 None) = None"
    by (simp add: shifted_simps)
  note ex1 = resolver_matching_predicate [of quake0 "shifted 30000 0.05 (Some 3.4)",
      THEN conjunct2, THEN conjunct2, THEN conjunct2, THEN conjunct2, THEN conjunct1, THEN mp, OF a]
  note ex2 = resolver_matching_predicate [of quake0 "shifted 30000 0.05 (Some 4.0)",
      THEN conjunct2, THEN conjunct2, THEN conjunct2, THEN conjunct2, THEN conjunct2, THEN mp, OF b]
  note ex3 = resolver_matching_predicate [of quake0 "shifted 30000 0.05 None",
      THEN conjunct2, THEN conjunct2, THEN conjunct2, THEN conjunct1, THEN mp, OF c]
  show ?thesis
    by (intro conjI ex1 ex2 ex3)
qed

text \<open>
  Claim C2, as stated (the output on \<open>[A, B, C]\<close> is \<open>A\<close> alone), fails: with three
  reports of equal place and magnitude at 0 s, 40 s and 80 s, \<open>A\<close> matches \<open>B\<close>,
  \<open>B\<close> matches \<open>C\<close>, \<open>A\<close> does not match \<open>C\<close>, and the resolver returns
  \<open>[A, C]\<close>.
\<close>

theorem absorb_chain_counterexample:
  "is_duplicate quake0 (shifted 40000 0 (Some 3.2))
   \<and> is_duplicate (shifted 40000 0 (Some 3.2)) (shifted 80000 0 (Some 3.2))
   \<and> \<not> is_duplicate quake0 (shifted 80000 0 (Some 3.2))
   \<and> deduplicate_earthquakes [quake0, shifted 40000 0 (Some 3.2), shifted 80000 0 (Some 3.2)]
       = [quake0, shifted 80000 0 (Some 3.2)]
   \<and> deduplicate_earthquakes [quake0, shifted 40000 0 (Some 3.2), shifted 80000 0 (Some 3.2)]
       \<noteq> [quake0]"
proof -
  have ab: "is_duplicate quake0 (shifted 40000 0 (Some 3.2))"
    by (simp add: is_duplicate_iff shifted_simps)
  have bc: "is_duplicate (shifted 40000 0 (Some 3.2)) (shifted 80000 0 (Some 3.2))"
    by (simp add: is_duplicate_iff shifted_simps)
  have ac: "\<not> is_duplicate quake0 (shifted 80000 0 (Some 3.2))"
    by (simp add: is_duplicate_iff shifted_simps)
  show ?thesis
    using ab bc ac by (simp add: deduplicate_triple)
qed

text \<open>
  Claim C2, amended. For every triple where \<open>A\<close> matches \<open>B\<close>, \<open>B\<close> matches \<open>C\<close> and
  \<open>A\<close> does not match \<open>C\<close>, the output on \<open>[A, B, C]\<close> is the two representatives
  \<open>A\<close> and \<open>C\<close>: \<open>B\<close> is absorbed into the class of \<open>A\<close>, and \<open>C\<close>, which is only
  tested against the representative \<open>A\<close>, is kept.
\<close>

theorem absorb_only_matches_of_representative:
  assumes "is_duplicate A B" and "is_duplicate B C" and "\<not> is_duplicate A C"
  shows "deduplicate_earthquakes [A, B, C] = [A, C]"
  using assms(1,3) by (rule deduplicate_triple)

theorem absorb_only_matches_of_representative_witness:
  "deduplicate_earthquakes [quake0, shifted 40000 0 (Some 3.2), shifted 80000 0 (Some 3.2)]
     = [quake0, shifted 80000 0 (Some 3.2)]"
proof -
  have ab: "is_duplicate quake0 (shifted 40000 0 (Some 3.2))"
    by (simp add: is_duplicate_iff shifted_simps)
  have bc: "is_duplicate (shifted 40000 0 (Some 3.2)) (shifted 80000 0 (Some 3.2))"
    by (simp add: is_duplicate_iff shifted_simps)
  have ac: "\<not> is_duplicate quake0 (shifted 80000 0 (Some 3.2))"
    by (simp add: is_duplicate_iff shifted_simps)
  show ?thesis
    by (rule absorb_only_matches_of_representative [OF ab bc ac])
qed

text \<open>
  Claim C3. When \<open>A\<close> and \<open>B\<close> match, the resolver's output on \<open>[A, B]\<close> is the single
  representative \<open>A\<close>, whatever the sources, qualities and times of the two events.
\<close>

theorem first_seen_wins:
  "is_duplicate A B \<Longrightarrow> deduplicate_earthquakes [A, B] = [A]"
  by (simp add: deduplicate_pair)

theorem first_seen_wins_witness:
  "source quake0 \<noteq> source (shifted 30000 0.05 (Some 3.4))
   \<and> timestamp quake0 < timestamp (shifted 30000 0.05 (Some 3.4))
   \<and> deduplicate_earthquakes [quake0, shifted 30000 0.05 (Some 3.4)] = [quake0]
   \<and> deduplicate_earthquakes [shifted 30000 0.05 (Some 3.4), quake0]
       = [shifted 30000 0.05 (Some 3.4)]"
proof -
  have ab: "is_duplicate quake0 (shifted 30000 0.05 (Some 3.4))"
    by (simp add: is_duplicate_iff shifted_simps power2_eq_square)
  have ba: "is_duplicate (shifted 30000 0.05 (Some 3.4)) quake0"
    by (simp add: is_duplicate_iff shifted_simps power2_eq_square)
  have "source quake0 \<noteq> source (shifted 30000 0.05 (Some 3.4))"
    by (simp add: quake0_def shifted_def)
  then show ?thesis
    using first_seen_wins [OF ab] first_seen_wins [OF ba] by (simp add: shifted_simps)
qed




text \<open>
  Claim C10. Two representatives at different positions of the resolver's output never
  match each other, in either direction.
\<close>

theorem representatives_pairwise_distinct:
  assumes "i < j" and "j < length (deduplicate_earthquakes earthquakes)"
  shows "\<not> is_duplicate (deduplicate_earthquakes earthquakes ! i) (deduplicate_earthquakes earthquakes ! j)
       \<and> \<not> is_duplicate (deduplicate_earthquakes earthquakes ! j) (deduplicate_earthquakes earthquakes ! i)"
proof -
  from assms(2) have ne: "earthquakes \<noteq> []"
    by (auto simp: deduplicate_earthquakes_def)
  then have out: "deduplicate_earthquakes earthquakes
      = fst (fold (visit_row (enumerate 0 earthquakes)) (enumerate 0 earthquakes) ([], {}))"
    by (simp add: deduplicate_earthquakes_def Let_def)
  from resolver_inv_final [of earthquakes] obtain reps where
    u: "deduplicate_earthquakes earthquakes = map ((!) earthquakes) reps" and
    pw: "\<forall>b < length reps. \<forall>a < b.
          \<not> is_duplicate (earthquakes ! (reps ! a)) (earthquakes ! (reps ! b))"
    unfolding resolver_inv_def out by blast
  from assms have j: "j < length reps" and i: "i < length reps"
    by (simp_all add: u)
  from pw j assms(1) have "\<not> is_duplicate (earthquakes ! (reps ! i)) (earthquakes ! (reps ! j))"
    by blast
  then have "\<not> is_duplicate (deduplicate_earthquakes earthquakes ! i) (deduplicate_earthquakes earthquakes ! j)"
    using i j by (simp add: u)
  then show ?thesis
    using is_duplicate_sym by blast
qed

theorem representatives_pairwise_distinct_witness:
  "(0::nat) < 1
   \<and> 1 < length (deduplicate_earthquakes
        [quake0, shifted 40000 0 (Some 3.2), shifted 80000 0 (Some 3.2)])
   \<and> \<not> is_duplicate quake0 (shifted 80000 0 (Some 3.2))"
proof -
  have ab: "is_duplicate quake0 (shifted 40000 0 (Some 3.2))"
    by (simp add: is_duplicate_iff shifted_simps)
  have ac: "\<not> is_duplicate quake0 (shifted 80000 0 (Some 3.2))"
    by (simp add: is_duplicate_iff shifted_simps)
  have out: "deduplicate_earthquakes [quake0, shifted 40000 0 (Some 3.2), shifted 80000 0 (Some 3.2)]
      = [quake0, shifted 80000 0 (Some 3.2)]"
    using ab ac by (rule deduplicate_triple)
  have h1: "(0::nat) < 1" by simp
  have h2: "1 < length (deduplicate_earthquakes
        [quake0, shifted 40000 0 (Some 3.2), shifted 80000 0 (Some 3.2)])"
    unfolding out by simp
  from representatives_pairwise_distinct [OF h1 h2] show ?thesis
    using h2 unfolding out by simp
qed

section \<open>Properties of the record normalizers\<close>

lemma and_then_Inr_iff: "and_then m f = Inr y \<longleftrightarrow> (\<exists>x. m = Inr x \<and> f x = Inr y)"
  by (cases m) (simp_all add: and_then_def)

lemma raise_if_none_Inr_iff: "raise_if_none e r = Inr x \<longleftrightarrow> r = Some x"
  by (cases r) (simp_all add: raise_if_none_def)

lemma float_JStr_Inr_iff: "float rt (JStr s) = Inr x \<longleftrightarrow> float_str rt s = Some x"
  by (simp add: raise_if_none_Inr_iff)

lemma kandilli_optional_float_Inr_iff:
  "kandilli_optional_float rt s = Inr v \<longleftrightarrow>
     (if s = ''-.-'' then v = None else v \<noteq> None \<and> float_str rt s = v)"
  by (cases "float_str rt s")
     (auto simp: kandilli_optional_float_def and_then_def raise_if_none_def)

text \<open>What a line must offer for \<^verbatim>\<open>_parse_kandilli_line\<close> to return a dictionary.\<close>

lemma parse_kandilli_line_body_Some_iff:
  "parse_kandilli_line_body rt line = Inr (Some ev) \<longleftrightarrow>
     (\<exists>lat lon dep mdv mlv mwv d us.
        9 \<le> length (split line)
        \<and> float_str rt (split line ! 2) = Some lat
        \<and> float_str rt (split line ! 3) = Some lon
        \<and> float_str rt (split line ! 4) = Some dep
        \<and> kandilli_optional_float rt (split line ! 5) = Inr mdv
        \<and> kandilli_optional_float rt (split line ! 6) = Inr mlv
        \<and> kandilli_optional_float rt (split line ! 7) = Inr mwv
        \<and> strptime rt (replace ''.'' ''-'' (split line ! 0) @ ''T'' @ split line ! 1)
             ''%Y-%m-%dT%H:%M:%S'' = Some d
        \<and> timestamp_us rt d = Inr us
        \<and> ev = \<lparr>
          eventID = JStr (''kandilli_'' @ replace ''.'' '''' (split line ! 0) @ ''_''
                            @ replace '':'' '''' (split line ! 1)),
          date = strftime rt d ''%Y-%m-%dT%H:%M:%S'',
          latitude = lat,
          longitude = lon,
          depth = dep,
          magnitude = (if mlv \<noteq> None then mlv else if mwv \<noteq> None then mwv
                       else if mdv \<noteq> None then mdv else Some 0),
          magnitude_details = \<lparr> md = mdv, ml = mlv, mw = mwv \<rparr>,
          mag_type = JStr (if mlv \<noteq> None then ''ML'' else if mwv \<noteq> None then ''MW'' else ''MD''),
          location = JStr (join '' '' (take (length (split line) - 1 - 8) (drop 8 (split line)))),
          country = Absent, province = Absent, district = Absent, neighborhood = Absent,
          timestamp = millis us,
          quality = replace ''ILKSEL'' ([CHR 0xC3, CHR 0x84, CHR 0xC2, CHR 0xB0] @ ''LKSEL'')
                      (split line ! (length (split line) - 1)),
          source = ''Kandilli'' \<rparr>)"
proof (cases "9 \<le> length (split line)")
  case True
  then show ?thesis
    unfolding parse_kandilli_line_body_def Let_def
    by (simp only: and_then_Inr_iff float_JStr_Inr_iff raise_if_none_Inr_iff if_True
          sum.inject option.inject simp_thms ex_simps) (rule iffI; (elim exE conjE)?; fastforce)
next
  case False
  then show ?thesis
    by (simp add: parse_kandilli_line_body_def)
qed

lemma parse_kandilli_line_Some_iff:
  "fst (parse_kandilli_line rt line) = Some ev \<longleftrightarrow> parse_kandilli_line_body rt line = Inr (Some ev)"
  by (cases "parse_kandilli_line_body rt line") (simp_all add: parse_kandilli_line_def)



lemma replace_method_Inr_iff:
  "replace_method v old new = Inr s \<longleftrightarrow> (\<exists>t. v = JStr t \<and> s = replace old new t)"
  by (cases v) auto

text \<open>What a record must offer for \<^verbatim>\<open>_standardize_afad_quake\<close> to return a dictionary.\<close>

lemma standardize_afad_quake_body_iff:
  "standardize_afad_quake_body rt quake = Inr ev \<longleftrightarrow>
     (\<exists>s d d' us m lat lon dep.
        get quake ''date'' = JStr s
        \<and> fromisoformat rt (replace ''Z'' ''+00:00'' s) = Some d
        \<and> add_hours d 3 = Inr d'
        \<and> timestamp_us rt d' = Inr us
        \<and> float rt (get_default quake ''magnitude'' (JNum 0)) = Inr m
        \<and> float rt (get quake ''latitude'') = Inr lat
        \<and> float rt (get quake ''longitude'') = Inr lon
        \<and> float rt (get quake ''depth'') = Inr dep
        \<and> ev = \<lparr>
          eventID = get quake ''eventID'',
          date = strftime rt d' ''%Y-%m-%dT%H:%M:%S'',
          latitude = lat,
          longitude = lon,
          depth = dep,
          magnitude = Some m,
          magnitude_details = \<lparr>
            md = (if get_default quake ''type'' (JStr ''ML'') = JStr ''MD'' then Some m else None),
            ml = (if get_default quake ''type'' (JStr ''ML'') = JStr ''ML'' then Some m else None),
            mw = (if get_default quake ''type'' (JStr ''ML'') = JStr ''MW'' then Some m else None) \<rparr>,
          mag_type = get_default quake ''type'' (JStr ''ML''),
          location = get quake ''location'',
          country = Value (get quake ''country''),
          province = Value (get quake ''province''),
          district = Value (get quake ''district''),
          neighborhood = Value (get quake ''neighborhood''),
          timestamp = millis us,
          quality = (if \<not> truthy (get_default quake ''isEventUpdate'' (JBool False))
                     then [CHR 0xC4, CHR 0xB0] @ ''LKSEL''
                     else ''REV'' @ [CHR 0xC4, CHR 0xB0] @ ''ZE''),
          source = ''AFAD'' \<rparr>)"
  unfolding standardize_afad_quake_body_def Let_def
  by (simp only: and_then_Inr_iff replace_method_Inr_iff raise_if_none_Inr_iff
        sum.inject simp_thms ex_simps) (rule iffI; (elim exE conjE)?; fastforce)

lemma standardize_afad_quake_Some_iff:
  "fst (standardize_afad_quake rt quake) = Some ev \<longleftrightarrow> standardize_afad_quake_body rt quake = Inr ev"
  by (cases "standardize_afad_quake_body rt quake") (simp_all add: standardize_afad_quake_def)



lemma add_hours_Inr:
  "add_hours d h = Inr d' \<Longrightarrow> wall d' = wall d + h * 3600 * 1000000 \<and> utcoffset d' = utcoffset d"
  by (auto simp: add_hours_def Let_def split: if_splits)




text \<open>A Kandilli line read field by field.\<close>

lemma parse_kandilli_line_tokens:
  assumes sp: "split line = [date_str, time_str, lat_s, lon_s, dep_s, md_s, ml_s, mw_s] @ loc @ [q]"
    and lat: "float_str rt lat_s = Some lat"
    and lon: "float_str rt lon_s = Some lon"
    and dep: "float_str rt dep_s = Some dep"
    and mdv: "kandilli_optional_float rt md_s = Inr mdv"
    and mlv: "kandilli_optional_float rt ml_s = Inr mlv"
    and mwv: "kandilli_optional_float rt mw_s = Inr mwv"
    and d: "strptime rt (replace ''.'' ''-'' date_str @ ''T'' @ time_str) ''%Y-%m-%dT%H:%M:%S'' = Some d"
    and us: "timestamp_us rt d = Inr us"
  shows "parse_kandilli_line rt line =
    (Some \<lparr>
       eventID = JStr (''kandilli_'' @ replace ''.'' '''' date_str @ ''_'' @ replace '':'' '''' time_str),
       date = strftime rt d ''%Y-%m-%dT%H:%M:%S'',
       latitude = lat,
       longitude = lon,
       depth = dep,
       magnitude = (if mlv \<noteq> None then mlv else if mwv \<noteq> None then mwv
                    else if mdv \<noteq> None then mdv else Some 0),
       magnitude_details = \<lparr> md = mdv, ml = mlv, mw = mwv \<rparr>,
       mag_type = JStr (if mlv \<noteq> None then ''ML'' else if mwv \<noteq> None then ''MW'' else ''MD''),
       location = JStr (join '' '' loc),
       country = Absent, province = Absent, district = Absent, neighborhood = Absent,
       timestamp = millis us,
       quality = replace ''ILKSEL'' ([CHR 0xC3, CHR 0x84, CHR 0xC2, CHR 0xB0] @ ''LKSEL'') q,
       source = ''Kandilli'' \<rparr>, [])"
proof -
  have n: "split line ! 0 = date_str" "split line ! 1 = time_str" "split line ! 2 = lat_s"
    "split line ! 3 = lon_s" "split line ! 4 = dep_s" "split line ! 5 = md_s"
    "split line ! 6 = ml_s" "split line ! 7 = mw_s"
    by (simp_all add: sp)
  have len: "9 \<le> length (split line)" "length (split line) - 1 = 8 + length loc"
    by (simp_all add: sp)
  have l: "take (length (split line) - 1 - 8) (drop 8 (split line)) = loc"
    unfolding len(2) by (simp add: sp)
  have q: "split line ! (length (split line) - 1) = q"
    unfolding len(2) by (simp add: sp nth_append)
  have "parse_kandilli_line_body rt line = Inr (Some \<lparr>
       eventID = JStr (''kandilli_'' @ replace ''.'' '''' date_str @ ''_'' @ replace '':'' '''' time_str),
       date = strftime rt d ''%Y-%m-%dT%H:%M:%S'',
       latitude = lat,
       longitude = lon,
       depth = dep,
       magnitude = (if mlv \<noteq> None then mlv else if mwv \<noteq> None then mwv
                    else if mdv \<noteq> None then mdv else Some 0),
       magnitude_details = \<lparr> md = mdv, ml = mlv, mw = mwv \<rparr>,
       mag_type = JStr (if mlv \<noteq> None then ''ML'' else if mwv \<noteq> None then ''MW'' else ''MD''),
       location = JStr (join '' '' loc),
       country = Absent, province = Absent, district = Absent, neighborhood = Absent,
       timestamp = millis us,
       quality = replace ''ILKSEL'' ([CHR 0xC3, CHR 0x84, CHR 0xC2, CHR 0xB0] @ ''LKSEL'') q,
       source = ''Kandilli'' \<rparr>)"
    unfolding parse_kandilli_line_body_Some_iff n l q
    using len(1) lat lon dep mdv mlv mwv d us by blast
  then show ?thesis
    by (simp add: parse_kandilli_line_def)
qed

text \<open>The sample runtime on the sample records.\<close>

lemma sample_float_values:
  "float_str sample_rt ''40.7000'' = Some 40.7"
  "float_str sample_rt ''29.0000'' = Some 29"
  "float_str sample_rt ''7.0'' = Some 7"
  "float_str sample_rt ''38.2500'' = Some 38.25"
  "float_str sample_rt ''38.7500'' = Some 38.75"
  "float_str sample_rt ''5.4'' = Some 5.4"
  "float_str sample_rt ''37.1000'' = Some 37.1"
  "float_str sample_rt ''28.5000'' = Some 28.5"
  "float_str sample_rt ''9.8'' = Some 9.8"
  "float_str sample_rt ''3.1'' = Some 3.1"
  "float_str sample_rt ''3.2'' = Some 3.2"
  "float_str sample_rt ''3.3'' = Some 3.3"
  "float_str sample_rt ''3.4'' = Some 3.4"
  "float_str sample_rt ''2.1'' = Some 2.1"
  "float_str sample_rt ''40.72'' = Some 40.72"
  "float_str sample_rt ''29.03'' = Some 29.03"
  "float_str sample_rt ''7.1'' = Some 7.1"
  "float_str sample_rt ''38.25'' = Some 38.25"
  "float_str sample_rt ''38.75'' = Some 38.75"
  "float_str sample_rt ''4O.7000'' = None"
  by (simp_all add: sample_rt_def sample_float_def sample_float_unsigned_def isdigit_def
      digits_value_def)

lemma sample_optional_float_values:
  "kandilli_optional_float sample_rt ''-.-'' = Inr None"
  "kandilli_optional_float sample_rt ''3.1'' = Inr (Some 3.1)"
  "kandilli_optional_float sample_rt ''3.2'' = Inr (Some 3.2)"
  "kandilli_optional_float sample_rt ''3.3'' = Inr (Some 3.3)"
  by (simp_all add: kandilli_optional_float_Inr_iff sample_float_values)

lemma sample_strptime_values:
  "strptime sample_rt (replace ''.'' ''-'' ''2024.01.15'' @ ''T'' @ ''10:30:45'') ''%Y-%m-%dT%H:%M:%S''
     = Some \<lparr> wall = 1705314645000000, utcoffset = None \<rparr>"
  "strptime sample_rt (replace ''.'' ''-'' ''2024.01.15'' @ ''T'' @ ''10:31:20'') ''%Y-%m-%dT%H:%M:%S''
     = Some \<lparr> wall = 1705314680000000, utcoffset = None \<rparr>"
  "strptime sample_rt (replace ''.'' ''-'' ''2024.01.15'' @ ''T'' @ ''10:32:10'') ''%Y-%m-%dT%H:%M:%S''
     = Some \<lparr> wall = 1705314730000000, utcoffset = None \<rparr>"
  by code_simp+

lemma sample_timestamp_naive:
  "timestamp_us sample_rt \<lparr> wall = w, utcoffset = None \<rparr> = Inr (w - 10800000000)"
  by (simp add: timestamp_us_def sample_rt_def sample_local_timestamp_def raise_if_none_def)

lemma sample_strftime_values:
  "strftime sample_rt \<lparr> wall = 1705314645000000, utcoffset = u \<rparr> ''%Y-%m-%dT%H:%M:%S''
     = ''2024-01-15T10:30:45''"
  "strftime sample_rt \<lparr> wall = 1705314680000000, utcoffset = u \<rparr> ''%Y-%m-%dT%H:%M:%S''
     = ''2024-01-15T10:31:20''"
  "strftime sample_rt \<lparr> wall = 1705314730000000, utcoffset = u \<rparr> ''%Y-%m-%dT%H:%M:%S''
     = ''2024-01-15T10:32:10''"
  "strftime sample_rt \<lparr> wall = 1705314660000000, utcoffset = u \<rparr> ''%Y-%m-%dT%H:%M:%S''
     = ''2024-01-15T10:31:00''"
  by code_simp+

lemma sample_string_values:
  "''kandilli_'' @ replace ''.'' '''' ''2024.01.15'' @ ''_'' @ replace '':'' '''' ''10:30:45''
     = ''kandilli_20240115_103045''"
  "''kandilli_'' @ replace ''.'' '''' ''2024.01.15'' @ ''_'' @ replace '':'' '''' ''10:31:20''
     = ''kandilli_20240115_103120''"
  "''kandilli_'' @ replace ''.'' '''' ''2024.01.15'' @ ''_'' @ replace '':'' '''' ''10:32:10''
     = ''kandilli_20240115_103210''"
  "join '' '' [''MARMARA'', ''DENIZI''] = ''MARMARA DENIZI''"
  "join '' '' [''PUTURGE'', ''(MALATYA)''] = ''PUTURGE (MALATYA)''"
  "join '' '' [''ULA'', ''(MUGLA)''] = ''ULA (MUGLA)''"
  "replace ''ILKSEL'' ([CHR 0xC3, CHR 0x84, CHR 0xC2, CHR 0xB0] @ ''LKSEL'') ''ILKSEL'' = kandilli_quality"
  by code_simp+

lemma sample_millis_values:
  "millis (1705314645000000 - 10800000000) = 1705303845000"
  "millis (1705314680000000 - 10800000000) = 1705303880000"
  "millis (1705314730000000 - 10800000000) = 1705303930000"
  "millis (1705314660000000 - 10800000000) = 1705303860000"
  "millis (1705303845000000 + 10800000000) = 1705314645000"
  by (simp_all add: millis_def)

lemma kandilli_line_ml_split:
  "split kandilli_line_ml =
     [''2024.01.15'', ''10:30:45'', ''40.7000'', ''29.0000'', ''7.0'', ''-.-'', ''3.2'', ''-.-'']
     @ [''MARMARA'', ''DENIZI''] @ [''ILKSEL'']"
  by code_simp

lemma kandilli_line_md_ml_split:
  "split kandilli_line_md_ml =
     [''2024.01.15'', ''10:31:20'', ''38.2500'', ''38.7500'', ''5.4'', ''3.1'', ''3.3'', ''-.-'']
     @ [''PUTURGE'', ''(MALATYA)''] @ [''ILKSEL'']"
  by code_simp

lemma kandilli_line_no_magnitude_split:
  "split kandilli_line_no_magnitude =
     [''2024.01.15'', ''10:32:10'', ''37.1000'', ''28.5000'', ''9.8'', ''-.-'', ''-.-'', ''-.-'']
     @ [''ULA'', ''(MUGLA)''] @ [''ILKSEL'']"
  by code_simp

lemma kandilli_line_ml_parsed:
  "parse_kandilli_line sample_rt kandilli_line_ml = (Some kandilli_event_ml, [])"
  unfolding parse_kandilli_line_tokens [OF kandilli_line_ml_split sample_float_values(1)
      sample_float_values(2) sample_float_values(3) sample_optional_float_values(1)
      sample_optional_float_values(3) sample_optional_float_values(1)
      sample_strptime_values(1) sample_timestamp_naive]
    kandilli_event_ml_def sample_string_values sample_strftime_values sample_millis_values
  by simp

lemma kandilli_line_md_ml_parsed:
  "parse_kandilli_line sample_rt kandilli_line_md_ml = (Some kandilli_event_md_ml, [])"
  unfolding parse_kandilli_line_tokens [OF kandilli_line_md_ml_split sample_float_values(4)
      sample_float_values(5) sample_float_values(6) sample_optional_float_values(2)
      sample_optional_float_values(4) sample_optional_float_values(1)
      sample_strptime_values(2) sample_timestamp_naive]
    kandilli_event_md_ml_def sample_string_values sample_strftime_values sample_millis_values
  by simp

lemma kandilli_line_no_magnitude_parsed:
  "parse_kandilli_line sample_rt kandilli_line_no_magnitude = (Some kandilli_event_no_magnitude, [])"
  unfolding parse_kandilli_line_tokens [OF kandilli_line_no_magnitude_split sample_float_values(7)
      sample_float_values(8) sample_float_values(9) sample_optional_float_values(1)
      sample_optional_float_values(1) sample_optional_float_values(1)
      sample_strptime_values(3) sample_timestamp_naive]
    kandilli_event_no_magnitude_def sample_string_values sample_strftime_values sample_millis_values
  by simp

lemma not_isl_iff: "\<not> isl r \<longleftrightarrow> (\<exists>x. r = Inr x)"
  by (cases r) simp_all

lemma kandilli_optional_float_ok:
  "(\<exists>v. kandilli_optional_float rt s = Inr v)
     \<longleftrightarrow> (if s = ''-.-'' then True else float_str rt s \<noteq> None)"
  by (auto simp: kandilli_optional_float_Inr_iff)

lemma kandilli_required_ok_iff:
  "fst (parse_kandilli_line rt line) \<noteq> None \<longleftrightarrow> kandilli_required_ok rt line"
proof
  assume "fst (parse_kandilli_line rt line) \<noteq> None"
  then obtain ev where "parse_kandilli_line_body rt line = Inr (Some ev)"
    by (auto simp: parse_kandilli_line_Some_iff)
  then obtain lat lon dep mdv mlv mwv d us where
    "9 \<le> length (split line)"
    "float_str rt (split line ! 2) = Some lat"
    "float_str rt (split line ! 3) = Some lon"
    "float_str rt (split line ! 4) = Some dep"
    "kandilli_optional_float rt (split line ! 5) = Inr mdv"
    "kandilli_optional_float rt (split line ! 6) = Inr mlv"
    "kandilli_optional_float rt (split line ! 7) = Inr mwv"
    "strptime rt (kandilli_time_field line) ''%Y-%m-%dT%H:%M:%S'' = Some d"
    "timestamp_us rt d = Inr us"
    unfolding parse_kandilli_line_body_Some_iff kandilli_time_field_def by blast
  then show "kandilli_required_ok rt line"
    unfolding kandilli_required_ok_def
    using kandilli_optional_float_ok [of rt "split line ! 5"]
      kandilli_optional_float_ok [of rt "split line ! 6"]
      kandilli_optional_float_ok [of rt "split line ! 7"]
    by (simp add: not_isl_iff)
next
  assume ok: "kandilli_required_ok rt line"
  then obtain lat lon dep d us where f:
    "9 \<le> length (split line)"
    "float_str rt (split line ! 2) = Some lat"
    "float_str rt (split line ! 3) = Some lon"
    "float_str rt (split line ! 4) = Some dep"
    "strptime rt (kandilli_time_field line) ''%Y-%m-%dT%H:%M:%S'' = Some d"
    "timestamp_us rt d = Inr us"
    unfolding kandilli_required_ok_def
    by (auto simp: not_isl_iff split: option.splits)
  from ok obtain mdv mlv mwv where m:
    "kandilli_optional_float rt (split line ! 5) = Inr mdv"
    "kandilli_optional_float rt (split line ! 6) = Inr mlv"
    "kandilli_optional_float rt (split line ! 7) = Inr mwv"
    unfolding kandilli_required_ok_def
    using kandilli_optional_float_ok [of rt "split line ! 5"]
      kandilli_optional_float_ok [of rt "split line ! 6"]
      kandilli_optional_float_ok [of rt "split line ! 7"]
    by blast
  have "\<exists>ev. parse_kandilli_line_body rt line = Inr (Some ev)"
    unfolding parse_kandilli_line_body_Some_iff
    using f m unfolding kandilli_time_field_def by blast
  then show "fst (parse_kandilli_line rt line) \<noteq> None"
    by (auto simp: parse_kandilli_line_Some_iff [symmetric])
qed

lemma kandilli_event_fields:
  assumes "fst (parse_kandilli_line rt line) = Some ev"
  shows "float_str rt (split line ! 2) = Some (latitude ev)"
    and "float_str rt (split line ! 3) = Some (longitude ev)"
    and "float_str rt (split line ! 4) = Some (depth ev)"
    and "magnitude ev \<noteq> None"
    and "source ev = ''Kandilli''"
    and "\<exists>d us. strptime rt (kandilli_time_field line) ''%Y-%m-%dT%H:%M:%S'' = Some d
           \<and> timestamp_us rt d = Inr us \<and> timestamp ev = millis us
           \<and> date ev = strftime rt d ''%Y-%m-%dT%H:%M:%S''"
    and "kandilli_optional_float rt (split line ! 5) = Inr (md (magnitude_details ev))"
    and "kandilli_optional_float rt (split line ! 6) = Inr (ml (magnitude_details ev))"
    and "kandilli_optional_float rt (split line ! 7) = Inr (mw (magnitude_details ev))"
    and "magnitude ev =
           (if ml (magnitude_details ev) \<noteq> None then ml (magnitude_details ev)
            else if mw (magnitude_details ev) \<noteq> None then mw (magnitude_details ev)
            else if md (magnitude_details ev) \<noteq> None then md (magnitude_details ev)
            else Some 0)"
    and "mag_type ev =
           JStr (if ml (magnitude_details ev) \<noteq> None then ''ML''
                 else if mw (magnitude_details ev) \<noteq> None then ''MW'' else ''MD'')"
proof -
  from assms have "parse_kandilli_line_body rt line = Inr (Some ev)"
    by (simp add: parse_kandilli_line_Some_iff)
  then obtain lat lon dep mdv mlv mwv d us where f:
    "float_str rt (split line ! 2) = Some lat"
    "float_str rt (split line ! 3) = Some lon"
    "float_str rt (split line ! 4) = Some dep"
    "kandilli_optional_float rt (split line ! 5) = Inr mdv"
    "kandilli_optional_float rt (split line ! 6) = Inr mlv"
    "kandilli_optional_float rt (split line ! 7) = Inr mwv"
    "strptime rt (kandilli_time_field line) ''%Y-%m-%dT%H:%M:%S'' = Some d"
    "timestamp_us rt d = Inr us"
    and sel: "latitude ev = lat" "longitude ev = lon" "depth ev = dep"
    "magnitude ev = (if mlv \<noteq> None then mlv else if mwv \<noteq> None then mwv
                       else if mdv \<noteq> None then mdv else Some 0)"
    "magnitude_details ev = \<lparr> md = mdv, ml = mlv, mw = mwv \<rparr>"
    "mag_type ev = JStr (if mlv \<noteq> None then ''ML'' else if mwv \<noteq> None then ''MW'' else ''MD'')"
    "timestamp ev = millis us" "date ev = strftime rt d ''%Y-%m-%dT%H:%M:%S''"
    "source ev = ''Kandilli''"
    unfolding parse_kandilli_line_body_Some_iff kandilli_time_field_def by force
  show "float_str rt (split line ! 2) = Some (latitude ev)"
    "float_str rt (split line ! 3) = Some (longitude ev)"
    "float_str rt (split line ! 4) = Some (depth ev)"
    "source ev = ''Kandilli''"
    using f sel by simp_all
  show "magnitude ev \<noteq> None"
    unfolding sel(4) by auto
  show "\<exists>d us. strptime rt (kandilli_time_field line) ''%Y-%m-%dT%H:%M:%S'' = Some d
           \<and> timestamp_us rt d = Inr us \<and> timestamp ev = millis us
           \<and> date ev = strftime rt d ''%Y-%m-%dT%H:%M:%S''"
    using f(7,8) sel(7,8) by blast
  show "kandilli_optional_float rt (split line ! 5) = Inr (md (magnitude_details ev))"
    "kandilli_optional_float rt (split line ! 6) = Inr (ml (magnitude_details ev))"
    "kandilli_optional_float rt (split line ! 7) = Inr (mw (magnitude_details ev))"
    using f sel(5) by simp_all
  show "magnitude ev =
           (if ml (magnitude_details ev) \<noteq> None then ml (magnitude_details ev)
            else if mw (magnitude_details ev) \<noteq> None then mw (magnitude_details ev)
            else if md (magnitude_details ev) \<noteq> None then md (magnitude_details ev)
            else Some 0)"
    unfolding sel(4,5) by simp
  show "mag_type ev =
           JStr (if ml (magnitude_details ev) \<noteq> None then ''ML''
                 else if mw (magnitude_details ev) \<noteq> None then ''MW'' else ''MD'')"
    unfolding sel(5,6) by simp
qed

text \<open>An AFAD record read field by field.\<close>

lemma standardize_afad_quake_fields:
  assumes "get quake ''date'' = JStr s"
    and "fromisoformat rt (replace ''Z'' ''+00:00'' s) = Some d"
    and "add_hours d 3 = Inr d'"
    and "timestamp_us rt d' = Inr us"
    and "float rt (get_default quake ''magnitude'' (JNum 0)) = Inr m"
    and "float rt (get quake ''latitude'') = Inr lat"
    and "float rt (get quake ''longitude'') = Inr lon"
    and "float rt (get quake ''depth'') = Inr dep"
  shows "standardize_afad_quake rt quake =
    (Some \<lparr>
       eventID = get quake ''eventID'',
       date = strftime rt d' ''%Y-%m-%dT%H:%M:%S'',
       latitude = lat,
       longitude = lon,
       depth = dep,
       magnitude = Some m,
       magnitude_details = \<lparr>
         md = (if get_default quake ''type'' (JStr ''ML'') = JStr ''MD'' then Some m else None),
         ml = (if get_default quake ''type'' (JStr ''ML'') = JStr ''ML'' then Some m else None),
         mw = (if get_default quake ''type'' (JStr ''ML'') = JStr ''MW'' then Some m else None) \<rparr>,
       mag_type = get_default quake ''type'' (JStr ''ML''),
       location = get quake ''location'',
       country = Value (get quake ''country''),
       province = Value (get quake ''province''),
       district = Value (get quake ''district''),
       neighborhood = Value (get quake ''neighborhood''),
       timestamp = millis us,
       quality = (if \<not> truthy (get_default quake ''isEventUpdate'' (JBool False))
                  then [CHR 0xC4, CHR 0xB0] @ ''LKSEL''
                  else ''REV'' @ [CHR 0xC4, CHR 0xB0] @ ''ZE''),
       source = ''AFAD'' \<rparr>, [])"
proof -
  have "standardize_afad_quake_body rt quake = Inr \<lparr>
       eventID = get quake ''eventID'',
       date = strftime rt d' ''%Y-%m-%dT%H:%M:%S'',
       latitude = lat,
       longitude = lon,
       depth = dep,
       magnitude = Some m,
       magnitude_details = \<lparr>
         md = (if get_default quake ''type'' (JStr ''ML'') = JStr ''MD'' then Some m else None),
         ml = (if get_default quake ''type'' (JStr ''ML'') = JStr ''ML'' then Some m else None),
         mw = (if get_default quake ''type'' (JStr ''ML'') = JStr ''MW'' then Some m else None) \<rparr>,
       mag_type = get_default quake ''type'' (JStr ''ML''),
       location = get quake ''location'',
       country = Value (get quake ''country''),
       province = Value (get quake ''province''),
       district = Value (get quake ''district''),
       neighborhood = Value (get quake ''neighborhood''),
       timestamp = millis us,
       quality = (if \<not> truthy (get_default quake ''isEventUpdate'' (JBool False))
                  then [CHR 0xC4, CHR 0xB0] @ ''LKSEL''
                  else ''REV'' @ [CHR 0xC4, CHR 0xB0] @ ''ZE''),
       source = ''AFAD'' \<rparr>"
    unfolding standardize_afad_quake_body_iff using assms by blast
  then show ?thesis
    by (simp add: standardize_afad_quake_def)
qed

lemma afad_time_ok_iff:
  "afad_time_ok rt v \<longleftrightarrow>
     (\<exists>s d d' us. v = JStr s \<and> fromisoformat rt (replace ''Z'' ''+00:00'' s) = Some d
        \<and> add_hours d 3 = Inr d' \<and> timestamp_us rt d' = Inr us)"
  by (cases v) (auto simp: afad_time_ok_def not_isl_iff split: option.splits sum.splits)

lemma afad_required_ok_iff:
  "fst (standardize_afad_quake rt quake) \<noteq> None \<longleftrightarrow> afad_required_ok rt quake"
proof
  assume "fst (standardize_afad_quake rt quake) \<noteq> None"
  then obtain ev where "standardize_afad_quake_body rt quake = Inr ev"
    by (auto simp: standardize_afad_quake_Some_iff)
  then obtain s d d' us m lat lon dep where
    "get quake ''date'' = JStr s"
    "fromisoformat rt (replace ''Z'' ''+00:00'' s) = Some d"
    "add_hours d 3 = Inr d'"
    "timestamp_us rt d' = Inr us"
    "float rt (get_default quake ''magnitude'' (JNum 0)) = Inr m"
    "float rt (get quake ''latitude'') = Inr lat"
    "float rt (get quake ''longitude'') = Inr lon"
    "float rt (get quake ''depth'') = Inr dep"
    unfolding standardize_afad_quake_body_iff by blast
  then show "afad_required_ok rt quake"
    unfolding afad_required_ok_def afad_time_ok_iff not_isl_iff by blast
next
  assume "afad_required_ok rt quake"
  then obtain s d d' us m lat lon dep where
    "get quake ''date'' = JStr s"
    "fromisoformat rt (replace ''Z'' ''+00:00'' s) = Some d"
    "add_hours d 3 = Inr d'"
    "timestamp_us rt d' = Inr us"
    "float rt (get_default quake ''magnitude'' (JNum 0)) = Inr m"
    "float rt (get quake ''latitude'') = Inr lat"
    "float rt (get quake ''longitude'') = Inr lon"
    "float rt (get quake ''depth'') = Inr dep"
    unfolding afad_required_ok_def afad_time_ok_iff not_isl_iff by blast
  from standardize_afad_quake_fields [OF this] show "fst (standardize_afad_quake rt quake) \<noteq> None"
    by simp
qed

lemma afad_event_fields:
  assumes "fst (standardize_afad_quake rt quake) = Some ev"
  shows "float rt (get quake ''latitude'') = Inr (latitude ev)"
    and "float rt (get quake ''longitude'') = Inr (longitude ev)"
    and "float rt (get quake ''depth'') = Inr (depth ev)"
    and "\<exists>m. float rt (get_default quake ''magnitude'' (JNum 0)) = Inr m \<and> magnitude ev = Some m"
    and "source ev = ''AFAD''"
    and "\<exists>s d d' us. get quake ''date'' = JStr s
           \<and> fromisoformat rt (replace ''Z'' ''+00:00'' s) = Some d
           \<and> add_hours d 3 = Inr d' \<and> timestamp_us rt d' = Inr us
           \<and> timestamp ev = millis us \<and> date ev = strftime rt d' ''%Y-%m-%dT%H:%M:%S''"
    and "mag_type ev = get_default quake ''type'' (JStr ''ML'')"
    and "magnitude_details ev = \<lparr>
           md = (if mag_type ev = JStr ''MD'' then magnitude ev else None),
           ml = (if mag_type ev = JStr ''ML'' then magnitude ev else None),
           mw = (if mag_type ev = JStr ''MW'' then magnitude ev else None) \<rparr>"
proof -
  from assms have "standardize_afad_quake_body rt quake = Inr ev"
    by (simp add: standardize_afad_quake_Some_iff)
  then obtain s d d' us m lat lon dep where f:
    "get quake ''date'' = JStr s"
    "fromisoformat rt (replace ''Z'' ''+00:00'' s) = Some d"
    "add_hours d 3 = Inr d'"
    "timestamp_us rt d' = Inr us"
    "float rt (get_default quake ''magnitude'' (JNum 0)) = Inr m"
    "float rt (get quake ''latitude'') = Inr lat"
    "float rt (get quake ''longitude'') = Inr lon"
    "float rt (get quake ''depth'') = Inr dep"
    and sel: "latitude ev = lat" "longitude ev = lon" "depth ev = dep" "magnitude ev = Some m"
    "mag_type ev = get_default quake ''type'' (JStr ''ML'')"
    "magnitude_details ev = \<lparr>
         md = (if get_default quake ''type'' (JStr ''ML'') = JStr ''MD'' then Some m else None),
         ml = (if get_default quake ''type'' (JStr ''ML'') = JStr ''ML'' then Some m else None),
         mw = (if get_default quake ''type'' (JStr ''ML'') = JStr ''MW'' then Some m else None) \<rparr>"
    "timestamp ev = millis us" "date ev = strftime rt d' ''%Y-%m-%dT%H:%M:%S''"
    "source ev = ''AFAD''"
    unfolding standardize_afad_quake_body_iff by force
  show "float rt (get quake ''latitude'') = Inr (latitude ev)"
    "float rt (get quake ''longitude'') = Inr (longitude ev)"
    "float rt (get quake ''depth'') = Inr (depth ev)"
    "source ev = ''AFAD''"
    "mag_type ev = get_default quake ''type'' (JStr ''ML'')"
    using f sel by simp_all
  show "\<exists>m. float rt (get_default quake ''magnitude'' (JNum 0)) = Inr m \<and> magnitude ev = Some m"
    using f(5) sel(4) by blast
  show "\<exists>s d d' us. get quake ''date'' = JStr s
           \<and> fromisoformat rt (replace ''Z'' ''+00:00'' s) = Some d
           \<and> add_hours d 3 = Inr d' \<and> timestamp_us rt d' = Inr us
           \<and> timestamp ev = millis us \<and> date ev = strftime rt d' ''%Y-%m-%dT%H:%M:%S''"
    using f(1-4) sel(7,8) by blast
  show "magnitude_details ev = \<lparr>
           md = (if mag_type ev = JStr ''MD'' then magnitude ev else None),
           ml = (if mag_type ev = JStr ''ML'' then magnitude ev else None),
           mw = (if mag_type ev = JStr ''MW'' then magnitude ev else None) \<rparr>"
    unfolding sel(4,5,6) by simp
qed

lemma afad_quake_lookups:
  "get afad_quake ''date'' = JStr ''2024-01-15T07:30:45Z''"
  "get_default afad_quake ''magnitude'' (JNum 0) = JStr ''3.4''"
  "get afad_quake ''latitude'' = JStr ''40.72''"
  "get afad_quake ''longitude'' = JStr ''29.03''"
  "get afad_quake ''depth'' = JStr ''7.1''"
  "get_default afad_quake ''type'' (JStr ''ML'') = JStr ''MW''"
  "get afad_quake ''eventID'' = JStr ''612345''"
  "get afad_quake ''location'' = JStr ''Marmara Denizi''"
  "get afad_quake ''country'' = JNull"
  "get afad_quake ''province'' = JNull"
  "get afad_quake ''district'' = JNull"
  "get afad_quake ''neighborhood'' = JNull"
  "get_default afad_quake ''isEventUpdate'' (JBool False) = JBool False"
  by (simp_all add: get_def get_default_def afad_quake_def)

lemma afad_quake_no_magnitude_lookups:
  "get afad_quake_no_magnitude ''date'' = JStr ''2024-01-15T07:31:00''"
  "afad_quake_no_magnitude ''magnitude'' = None"
  "get_default afad_quake_no_magnitude ''magnitude'' (JNum 0) = JNum 0"
  "get afad_quake_no_magnitude ''latitude'' = JStr ''38.25''"
  "get afad_quake_no_magnitude ''longitude'' = JStr ''38.75''"
  "get afad_quake_no_magnitude ''depth'' = JNum 5"
  "get_default afad_quake_no_magnitude ''type'' (JStr ''ML'') = JStr ''ML''"
  "get afad_quake_no_magnitude ''eventID'' = JStr ''612346''"
  "get afad_quake_no_magnitude ''location'' = JNull"
  "get afad_quake_no_magnitude ''country'' = JNull"
  "get afad_quake_no_magnitude ''province'' = JNull"
  "get afad_quake_no_magnitude ''district'' = JNull"
  "get afad_quake_no_magnitude ''neighborhood'' = JNull"
  "get_default afad_quake_no_magnitude ''isEventUpdate'' (JBool False) = JBool False"
  by (simp_all add: get_def get_default_def afad_quake_no_magnitude_def)

lemma sample_fromisoformat_values:
  "fromisoformat sample_rt (replace ''Z'' ''+00:00'' ''2024-01-15T07:30:45Z'')
     = Some \<lparr> wall = 1705303845000000, utcoffset = Some 0 \<rparr>"
  "fromisoformat sample_rt (replace ''Z'' ''+00:00'' ''2024-01-15T07:31:00'')
     = Some \<lparr> wall = 1705303860000000, utcoffset = None \<rparr>"
  "fromisoformat sample_rt (replace ''Z'' ''+00:00'' ''2024-01-15T07:32:00'')
     = Some \<lparr> wall = 1705303920000000, utcoffset = None \<rparr>"
  by code_simp+

lemma sample_add_hours_values:
  "add_hours \<lparr> wall = 1705303845000000, utcoffset = u \<rparr> 3
     = Inr \<lparr> wall = 1705314645000000, utcoffset = u \<rparr>"
  "add_hours \<lparr> wall = 1705303860000000, utcoffset = u \<rparr> 3
     = Inr \<lparr> wall = 1705314660000000, utcoffset = u \<rparr>"
  "add_hours \<lparr> wall = 1705303920000000, utcoffset = u \<rparr> 3
     = Inr \<lparr> wall = 1705314720000000, utcoffset = u \<rparr>"
  by (simp_all add: add_hours_def)

lemma timestamp_us_aware: "timestamp_us rt \<lparr> wall = w, utcoffset = Some off \<rparr> = Inr (w - off)"
  by (simp add: timestamp_us_def)

lemma afad_quake_standardized:
  "standardize_afad_quake sample_rt afad_quake = (Some afad_event, [])"
proof -
  have fl: "float sample_rt (JStr ''3.4'') = Inr 3.4" "float sample_rt (JStr ''40.72'') = Inr 40.72"
    "float sample_rt (JStr ''29.03'') = Inr 29.03" "float sample_rt (JStr ''7.1'') = Inr 7.1"
    by (simp_all add: raise_if_none_def sample_float_values)
  have ms: "millis (1705314645000000 - 0) = 1705314645000"
    by (simp add: millis_def)
  show ?thesis
    unfolding standardize_afad_quake_fields [of afad_quake, unfolded afad_quake_lookups,
        OF refl sample_fromisoformat_values(1) sample_add_hours_values(1) timestamp_us_aware
          fl(1) fl(2) fl(3) fl(4)]
      afad_event_def afad_quality_def sample_strftime_values ms
    by simp
qed

lemma afad_quake_no_magnitude_standardized:
  "standardize_afad_quake sample_rt afad_quake_no_magnitude = (Some afad_event_no_magnitude, [])"
proof -
  have fl: "float sample_rt (JNum 0) = Inr 0" "float sample_rt (JStr ''38.25'') = Inr 38.25"
    "float sample_rt (JStr ''38.75'') = Inr 38.75" "float sample_rt (JNum 5) = Inr 5"
    by (simp_all add: raise_if_none_def sample_float_values)
  show ?thesis
    unfolding standardize_afad_quake_fields [of afad_quake_no_magnitude,
        unfolded afad_quake_no_magnitude_lookups,
        OF refl sample_fromisoformat_values(2) sample_add_hours_values(2) sample_timestamp_naive
          fl(1) fl(2) fl(3) fl(4)]
      afad_event_no_magnitude_def afad_quality_def sample_strftime_values sample_millis_values
    by simp
qed

lemma afad_quake_bad_depth_dropped:
  "fst (standardize_afad_quake sample_rt afad_quake_bad_depth) = None"
proof -
  have "get afad_quake_bad_depth ''depth'' = JNull"
    by (simp add: get_def get_default_def afad_quake_bad_depth_def)
  then have "\<not> afad_required_ok sample_rt afad_quake_bad_depth"
    by (simp add: afad_required_ok_def)
  then show ?thesis
    using afad_required_ok_iff [of sample_rt afad_quake_bad_depth] by simp
qed

lemma kandilli_line_bad_latitude_dropped:
  "parse_kandilli_line sample_rt kandilli_line_bad_latitude = (None, [Kandilli_line_error ValueError])"
proof -
  have sp: "split kandilli_line_bad_latitude =
     [''2024.01.15'', ''10:33:00'', ''4O.7000'', ''29.0000'', ''7.0'', ''-.-'', ''3.2'', ''-.-'',
      ''MARMARA'', ''DENIZI'', ''ILKSEL'']"
    by code_simp
  have "float sample_rt (JStr ''4O.7000'') = Inl ValueError"
    by (simp add: raise_if_none_def sample_float_values)
  then have "parse_kandilli_line_body sample_rt kandilli_line_bad_latitude = Inl ValueError"
    unfolding parse_kandilli_line_body_def sp Let_def
    by (simp add: and_then_def)
  then show ?thesis
    by (simp add: parse_kandilli_line_def)
qed




lemma non_null_entries_count:
  "non_null_entries \<lparr> md = a, ml = b, mw = c \<rparr> =
     (if a = None then 0 else 1) + (if b = None then 0 else 1) + (if c = None then 0 else 1)"
  by (simp add: non_null_entries_def)
















text \<open>
  Claim C4, as stated (a record without a parseable magnitude value is dropped), fails:
  a Kandilli line whose three magnitude columns are the placeholder \<^verbatim>\<open>-.-\<close> and an
  AFAD record without the key \<^verbatim>\<open>magnitude\<close> both yield an event, of magnitude 0.
\<close>

theorem missing_magnitude_kept_counterexample:
  "split kandilli_line_no_magnitude ! 5 = ''-.-''
   \<and> split kandilli_line_no_magnitude ! 6 = ''-.-''
   \<and> split kandilli_line_no_magnitude ! 7 = ''-.-''
   \<and> parse_kandilli_line sample_rt kandilli_line_no_magnitude
       = (Some kandilli_event_no_magnitude, [])
   \<and> magnitude kandilli_event_no_magnitude = Some 0
   \<and> afad_quake_no_magnitude ''magnitude'' = None
   \<and> standardize_afad_quake sample_rt afad_quake_no_magnitude
       = (Some afad_event_no_magnitude, [])
   \<and> magnitude afad_event_no_magnitude = Some 0"
proof -
  have "split kandilli_line_no_magnitude ! 5 = ''-.-''"
    "split kandilli_line_no_magnitude ! 6 = ''-.-''"
    "split kandilli_line_no_magnitude ! 7 = ''-.-''"
    by (simp_all add: kandilli_line_no_magnitude_split)
  moreover have "magnitude kandilli_event_no_magnitude = Some 0"
    by (simp add: kandilli_event_no_magnitude_def)
  moreover have "magnitude afad_event_no_magnitude = Some 0"
    by (simp add: afad_event_no_magnitude_def)
  ultimately show ?thesis
    using kandilli_line_no_magnitude_parsed afad_quake_no_magnitude_standardized
      afad_quake_no_magnitude_lookups(2)
    by (intro conjI)
qed

text \<open>
  Claim C4, amended. Every event that leaves a normalizer carries the parsed time,
  latitude, longitude and depth of its raw record, a magnitude that is not null and its
  source. A normalizer produces an event exactly when the raw record's time, latitude,
  longitude and depth can be established and every magnitude value it holds parses
  (and, for Kandilli, the line has at least nine fields); otherwise the record is
  dropped. A record that holds no magnitude value (a Kandilli
  line with the placeholder in all three columns, an AFAD record without the key) is
  not dropped: its event has magnitude 0.
\<close>

theorem normalizer_required_fields:
  "(fst (parse_kandilli_line rt line) \<noteq> None \<longleftrightarrow> kandilli_required_ok rt line)
   \<and> (fst (parse_kandilli_line rt line) = Some ev \<longrightarrow>
        float_str rt (split line ! 2) = Some (latitude ev)
        \<and> float_str rt (split line ! 3) = Some (longitude ev)
        \<and> float_str rt (split line ! 4) = Some (depth ev)
        \<and> magnitude ev \<noteq> None
        \<and> source ev = ''Kandilli''
        \<and> (\<exists>d us. strptime rt (kandilli_time_field line) ''%Y-%m-%dT%H:%M:%S'' = Some d
              \<and> timestamp_us rt d = Inr us \<and> timestamp ev = millis us
              \<and> date ev = strftime rt d ''%Y-%m-%dT%H:%M:%S'')
        \<and> (split line ! 5 = ''-.-'' \<and> split line ! 6 = ''-.-'' \<and> split line ! 7 = ''-.-''
              \<longrightarrow> magnitude ev = Some 0))
   \<and> (fst (standardize_afad_quake rt quake) \<noteq> None \<longleftrightarrow> afad_required_ok rt quake)
   \<and> (fst (standardize_afad_quake rt quake) = Some ev' \<longrightarrow>
        float rt (get quake ''latitude'') = Inr (latitude ev')
        \<and> float rt (get quake ''longitude'') = Inr (longitude ev')
        \<and> float rt (get quake ''depth'') = Inr (depth ev')
        \<and> magnitude ev' \<noteq> None
        \<and> source ev' = ''AFAD''
        \<and> (\<exists>s d d' us. get quake ''date'' = JStr s
              \<and> fromisoformat rt (replace ''Z'' ''+00:00'' s) = Some d
              \<and> add_hours d 3 = Inr d' \<and> timestamp_us rt d' = Inr us
              \<and> timestamp ev' = millis us \<and> date ev' = strftime rt d' ''%Y-%m-%dT%H:%M:%S'')
        \<and> (quake ''magnitude'' = None \<longrightarrow> magnitude ev' = Some 0))"
proof (intro conjI impI)
  show "fst (parse_kandilli_line rt line) \<noteq> None \<longleftrightarrow> kandilli_required_ok rt line"
    by (rule kandilli_required_ok_iff)
  show "fst (standardize_afad_quake rt quake) \<noteq> None \<longleftrightarrow> afad_required_ok rt quake"
    by (rule afad_required_ok_iff)
next
  assume k: "fst (parse_kandilli_line rt line) = Some ev"
  note f = kandilli_event_fields [OF k]
  show "float_str rt (split line ! 2) = Some (latitude ev)" by (rule f(1))
  show "float_str rt (split line ! 3) = Some (longitude ev)" by (rule f(2))
  show "float_str rt (split line ! 4) = Some (depth ev)" by (rule f(3))
  show "magnitude ev \<noteq> None" by (rule f(4))
  show "source ev = ''Kandilli''" by (rule f(5))
  show "\<exists>d us. strptime rt (kandilli_time_field line) ''%Y-%m-%dT%H:%M:%S'' = Some d
          \<and> timestamp_us rt d = Inr us \<and> timestamp ev = millis us
          \<and> date ev = strftime rt d ''%Y-%m-%dT%H:%M:%S''" by (rule f(6))
  assume p: "split line ! 5 = ''-.-'' \<and> split line ! 6 = ''-.-'' \<and> split line ! 7 = ''-.-''"
  have "md (magnitude_details ev) = None" "ml (magnitude_details ev) = None"
    "mw (magnitude_details ev) = None"
    using f(7) f(8) f(9) p by (simp_all add: kandilli_optional_float_def)
  with f(10) show "magnitude ev = Some 0"
    by simp
next
  assume a: "fst (standardize_afad_quake rt quake) = Some ev'"
  note f = afad_event_fields [OF a]
  show "float rt (get quake ''latitude'') = Inr (latitude ev')" by (rule f(1))
  show "float rt (get quake ''longitude'') = Inr (longitude ev')" by (rule f(2))
  show "float rt (get quake ''depth'') = Inr (depth ev')" by (rule f(3))
  show "magnitude ev' \<noteq> None" using f(4) by auto
  show "source ev' = ''AFAD''" by (rule f(5))
  show "\<exists>s d d' us. get quake ''date'' = JStr s
          \<and> fromisoformat rt (replace ''Z'' ''+00:00'' s) = Some d
          \<and> add_hours d 3 = Inr d' \<and> timestamp_us rt d' = Inr us
          \<and> timestamp ev' = millis us \<and> date ev' = strftime rt d' ''%Y-%m-%dT%H:%M:%S''"
    by (rule f(6))
  assume "quake ''magnitude'' = None"
  then have "get_default quake ''magnitude'' (JNum 0) = JNum 0"
    by (simp add: get_default_def)
  with f(4) show "magnitude ev' = Some 0"
    by auto
qed

theorem normalizer_required_fields_witness:
  "kandilli_required_ok sample_rt kandilli_line_no_magnitude
   \<and> float_str sample_rt (split kandilli_line_no_magnitude ! 2) = Some 37.1
   \<and> magnitude kandilli_event_no_magnitude = Some 0
   \<and> \<not> kandilli_required_ok sample_rt kandilli_line_bad_latitude
   \<and> afad_required_ok sample_rt afad_quake_no_magnitude
   \<and> float sample_rt (get afad_quake_no_magnitude ''latitude'') = Inr 38.25
   \<and> magnitude afad_event_no_magnitude = Some 0
   \<and> \<not> afad_required_ok sample_rt afad_quake_bad_depth"
proof -
  note K = normalizer_required_fields [of sample_rt kandilli_line_no_magnitude
      kandilli_event_no_magnitude afad_quake_no_magnitude afad_event_no_magnitude]
  note B = normalizer_required_fields [of sample_rt kandilli_line_bad_latitude _
      afad_quake_bad_depth]
  have k: "fst (parse_kandilli_line sample_rt kandilli_line_no_magnitude)
      = Some kandilli_event_no_magnitude"
    by (simp add: kandilli_line_no_magnitude_parsed)
  have a: "fst (standardize_afad_quake sample_rt afad_quake_no_magnitude)
      = Some afad_event_no_magnitude"
    by (simp add: afad_quake_no_magnitude_standardized)
  have p: "split kandilli_line_no_magnitude ! 5 = ''-.-''
      \<and> split kandilli_line_no_magnitude ! 6 = ''-.-''
      \<and> split kandilli_line_no_magnitude ! 7 = ''-.-''"
    by (simp add: kandilli_line_no_magnitude_split)
  have lat: "latitude kandilli_event_no_magnitude = 37.1"
    "latitude afad_event_no_magnitude = 38.25"
    by (simp_all add: kandilli_event_no_magnitude_def afad_event_no_magnitude_def)
  have kb: "fst (parse_kandilli_line sample_rt kandilli_line_bad_latitude) = None"
    by (simp add: kandilli_line_bad_latitude_dropped)
  note Kk = K [THEN conjunct2, THEN conjunct1, THEN mp, OF k]
  note Ka = K [THEN conjunct2, THEN conjunct2, THEN conjunct2, THEN mp, OF a]
  have 1: "kandilli_required_ok sample_rt kandilli_line_no_magnitude"
    using K [THEN conjunct1] k by simp
  have 2: "float_str sample_rt (split kandilli_line_no_magnitude ! 2) = Some 37.1"
    using Kk lat(1) by simp
  have 3: "magnitude kandilli_event_no_magnitude = Some 0"
    using Kk p by blast
  have 4: "\<not> kandilli_required_ok sample_rt kandilli_line_bad_latitude"
    using B [THEN conjunct1] kb by simp
  have 5: "afad_required_ok sample_rt afad_quake_no_magnitude"
    using K [THEN conjunct2, THEN conjunct2, THEN conjunct1] a by simp
  have 6: "float sample_rt (get afad_quake_no_magnitude ''latitude'') = Inr 38.25"
    using Ka lat(2) by simp
  have 7: "magnitude afad_event_no_magnitude = Some 0"
    using Ka afad_quake_no_magnitude_lookups(2) by blast
  have 8: "\<not> afad_required_ok sample_rt afad_quake_bad_depth"
    using B [THEN conjunct2, THEN conjunct2, THEN conjunct1] afad_quake_bad_depth_dropped by simp
  show ?thesis
    by (intro conjI 1 2 3 4 5 6 7 8)
qed




text \<open>
  Claim C6. The filter keeps exactly the events whose magnitude is at least
  \<open>min_magnitude\<close> (so an event of magnitude exactly \<open>min_magnitude\<close> passes the
  magnitude test and one strictly below it is excluded) and, when the fixed region is
  selected, whose latitude and longitude lie in the closed intervals of the box, edges
  included.
\<close>

theorem filter_data_bounds:
  "filter_data df min_magnitude region = filter (spec_passes_filter min_magnitude region) df
   \<and> (magnitude e = Some min_magnitude \<longrightarrow> magnitude_ge e min_magnitude)
   \<and> (magnitude e = Some m \<and> m < min_magnitude \<longrightarrow>
        \<not> magnitude_ge e min_magnitude \<and> e \<notin> set (filter_data df min_magnitude region))
   \<and> (is_in_marmara_region lat lon \<longleftrightarrow> 39.5 \<le> lat \<and> lat \<le> 41.5 \<and> 26 \<le> lon \<and> lon \<le> 31)"
proof (intro conjI impI)
  have pt: "spec_passes_filter min_magnitude region =
      (\<lambda>row. magnitude_ge row min_magnitude
         \<and> (region = marmara_bolgesi \<longrightarrow> is_in_marmara_region (latitude row) (longitude row)))"
    by (rule ext) (simp add: spec_passes_filter_def magnitude_ge_def is_in_marmara_region_def
        min_lat_def max_lat_def min_lon_def max_lon_def)
  show "filter_data df min_magnitude region = filter (spec_passes_filter min_magnitude region) df"
    unfolding pt by (cases "region = marmara_bolgesi") (simp_all add: filter_data_def Let_def)
  show "magnitude_ge e min_magnitude" if "magnitude e = Some min_magnitude"
    using that by (simp add: magnitude_ge_def)
  show "is_in_marmara_region lat lon \<longleftrightarrow> 39.5 \<le> lat \<and> lat \<le> 41.5 \<and> 26 \<le> lon \<and> lon \<le> 31"
    by (simp add: is_in_marmara_region_def min_lat_def max_lat_def min_lon_def max_lon_def)
next
  assume low: "magnitude e = Some m \<and> m < min_magnitude"
  then show not_ge: "\<not> magnitude_ge e min_magnitude"
    by (simp add: magnitude_ge_def)
  then show "e \<notin> set (filter_data df min_magnitude region)"
    by (simp add: filter_data_def Let_def)
qed

theorem filter_data_bounds_witness:
  "filter_data [quake0, shifted 0 0.8 (Some 3.1999), shifted 0 0.8 (Some 3.2), shifted 0 0.81 (Some 5)]
     3.2 marmara_bolgesi
   = [quake0, shifted 0 0.8 (Some 3.2)]
   \<and> latitude (shifted 0 0.8 (Some 3.2)) = 41.5
   \<and> magnitude_ge (shifted 0 0.8 (Some 3.2)) 3.2
   \<and> \<not> magnitude_ge (shifted 0 0.8 (Some 3.1999)) 3.2"
proof -
  have p0: "spec_passes_filter 3.2 marmara_bolgesi quake0"
    by (simp add: spec_passes_filter_def shifted_simps)
  have p1: "\<not> spec_passes_filter 3.2 marmara_bolgesi (shifted 0 0.8 (Some 3.1999))"
    by (simp add: spec_passes_filter_def shifted_simps)
  have p2: "spec_passes_filter 3.2 marmara_bolgesi (shifted 0 0.8 (Some 3.2))"
    by (simp add: spec_passes_filter_def shifted_simps)
  have p3: "\<not> spec_passes_filter 3.2 marmara_bolgesi (shifted 0 0.81 (Some 5))"
    by (simp add: spec_passes_filter_def shifted_simps)
  have m2: "magnitude (shifted 0 0.8 (Some 3.2)) = Some 3.2"
    by (simp only: shifted_simps)
  have m1: "magnitude (shifted 0 0.8 (Some 3.1999)) = Some 3.1999 \<and> (3.1999::real) < 3.2"
    by (simp add: shifted_simps)
  note T = filter_data_bounds [of "[quake0, shifted 0 0.8 (Some 3.1999), shifted 0 0.8 (Some 3.2),
      shifted 0 0.81 (Some 5)]" "3.2" marmara_bolgesi]
  have a: "filter_data [quake0, shifted 0 0.8 (Some 3.1999), shifted 0 0.8 (Some 3.2),
      shifted 0 0.81 (Some 5)] 3.2 marmara_bolgesi = [quake0, shifted 0 0.8 (Some 3.2)]"
    unfolding T [THEN conjunct1] using p0 p1 p2 p3 by simp
  have b: "magnitude_ge (shifted 0 0.8 (Some 3.2)) 3.2"
    by (rule T [of "shifted 0 0.8 (Some 3.2)", THEN conjunct2, THEN conjunct1, THEN mp, OF m2])
  have c: "\<not> magnitude_ge (shifted 0 0.8 (Some 3.1999)) 3.2"
    by (rule T [of "shifted 0 0.8 (Some 3.1999)" "3.1999", THEN conjunct2, THEN conjunct2,
          THEN conjunct1, THEN mp, OF m1, THEN conjunct1])
  have d: "latitude (shifted 0 0.8 (Some 3.2)) = 41.5"
    by (simp add: shifted_simps)
  show ?thesis
    by (intro conjI a b c d)
qed

text \<open>
  Claim C7, as stated for the millisecond \<^verbatim>\<open>timestamp\<close>, fails when the raw AFAD time
  carries no UTC offset: \<^verbatim>\<open>timestamp()\<close> then reads the shifted wall clock on the
  machine's local clock. On a machine three hours ahead of UTC the record dated
  2024-01-15T07:31:00 gets the timestamp 1705303860000, which is the raw UTC time
  itself and not the raw time plus three hours.
\<close>

theorem afad_naive_timestamp_counterexample:
  "get afad_quake_no_magnitude ''date'' = JStr ''2024-01-15T07:31:00''
   \<and> fromisoformat sample_rt (replace ''Z'' ''+00:00'' ''2024-01-15T07:31:00'')
       = Some \<lparr> wall = 1705303860000000, utcoffset = None \<rparr>
   \<and> millis 1705303860000000 = 1705303860000
   \<and> standardize_afad_quake sample_rt afad_quake_no_magnitude = (Some afad_event_no_magnitude, [])
   \<and> date afad_event_no_magnitude = ''2024-01-15T10:31:00''
   \<and> timestamp afad_event_no_magnitude = 1705303860000
   \<and> timestamp afad_event_no_magnitude \<noteq> 1705303860000 + 3 * 3600 * 1000"
proof -
  have "millis 1705303860000000 = 1705303860000"
    by (simp add: millis_def)
  moreover have "date afad_event_no_magnitude = ''2024-01-15T10:31:00''"
    "timestamp afad_event_no_magnitude = 1705303860000"
    by (simp_all add: afad_event_no_magnitude_def)
  ultimately show ?thesis
    using afad_quake_no_magnitude_lookups(1) sample_fromisoformat_values(2)
      afad_quake_no_magnitude_standardized
    by simp
qed

text \<open>
  Claim C7, amended. An AFAD event's local time is the raw record's time plus exactly
  three hours: its \<^verbatim>\<open>date\<close> text is that of the parsed datetime with its wall clock
  moved forward by 3 h, and its \<^verbatim>\<open>timestamp\<close> is the POSIX time, in milliseconds, of
  that shifted datetime. When the raw time carries its UTC offset, that POSIX time is
  the raw POSIX time plus 10 800 000 000 microseconds (and, from 1970 on, the
  \<^verbatim>\<open>timestamp\<close> is the raw one plus 10 800 000). When it carries none, it is the time
  at which the machine's local clock shows the shifted reading. A Kandilli event's
  \<^verbatim>\<open>date\<close> and \<^verbatim>\<open>timestamp\<close> are those of the parsed local time itself, with no
  offset.
\<close>

theorem afad_shifted_three_hours:
  "(fst (standardize_afad_quake rt quake) = Some ev \<longrightarrow>
      (\<exists>s d us. get quake ''date'' = JStr s
         \<and> fromisoformat rt (replace ''Z'' ''+00:00'' s) = Some d
         \<and> date ev = strftime rt (d \<lparr> wall := wall d + 3 * 3600 * 1000000 \<rparr>) ''%Y-%m-%dT%H:%M:%S''
         \<and> timestamp_us rt (d \<lparr> wall := wall d + 3 * 3600 * 1000000 \<rparr>) = Inr us
         \<and> timestamp ev = millis us
         \<and> (\<forall>raw. utcoffset d \<noteq> None \<and> timestamp_us rt d = Inr raw \<longrightarrow>
               us = raw + 3 * 3600 * 1000000
               \<and> (0 \<le> raw \<longrightarrow> timestamp ev = millis raw + 3 * 3600 * 1000))
         \<and> (utcoffset d = None \<longrightarrow>
               local_timestamp rt (wall d + 3 * 3600 * 1000000) = Some us)))
   \<and> (fst (parse_kandilli_line rt line) = Some ev' \<longrightarrow>
      (\<exists>d us. strptime rt (kandilli_time_field line) ''%Y-%m-%dT%H:%M:%S'' = Some d
         \<and> date ev' = strftime rt d ''%Y-%m-%dT%H:%M:%S''
         \<and> timestamp_us rt d = Inr us
         \<and> timestamp ev' = millis us))"
proof (intro conjI impI)
  assume a: "fst (standardize_afad_quake rt quake) = Some ev"
  from afad_event_fields(6) [OF a] obtain s d d' us where f:
    "get quake ''date'' = JStr s"
    "fromisoformat rt (replace ''Z'' ''+00:00'' s) = Some d"
    "add_hours d 3 = Inr d'" "timestamp_us rt d' = Inr us"
    "timestamp ev = millis us" "date ev = strftime rt d' ''%Y-%m-%dT%H:%M:%S''"
    by blast
  have d': "d' = d \<lparr> wall := wall d + 3 * 3600 * 1000000 \<rparr>"
    using f(3) by (auto simp: add_hours_def Let_def split: if_splits)
  have aware: "us = raw + 3 * 3600 * 1000000
      \<and> (0 \<le> raw \<longrightarrow> timestamp ev = millis raw + 3 * 3600 * 1000)"
    if "utcoffset d \<noteq> None \<and> timestamp_us rt d = Inr raw" for raw
  proof -
    from that obtain off where off: "utcoffset d = Some off" and raw: "raw = wall d - off"
      by (auto simp: timestamp_us_def)
    from f(4) have us: "us = raw + 3 * 3600 * 1000000"
      unfolding d' by (simp add: timestamp_us_def off raw)
    have "millis (raw + 3 * 3600 * 1000000) = millis raw + 3 * 3600 * 1000" if "0 \<le> raw"
      using that by (simp add: millis_def)
    with us f(5) show ?thesis by simp
  qed
  have naive: "local_timestamp rt (wall d + 3 * 3600 * 1000000) = Some us" if "utcoffset d = None"
    using f(4) that unfolding d' by (simp add: timestamp_us_def raise_if_none_Inr_iff)
  show "\<exists>s d us. get quake ''date'' = JStr s
         \<and> fromisoformat rt (replace ''Z'' ''+00:00'' s) = Some d
         \<and> date ev = strftime rt (d \<lparr> wall := wall d + 3 * 3600 * 1000000 \<rparr>) ''%Y-%m-%dT%H:%M:%S''
         \<and> timestamp_us rt (d \<lparr> wall := wall d + 3 * 3600 * 1000000 \<rparr>) = Inr us
         \<and> timestamp ev = millis us
         \<and> (\<forall>raw. utcoffset d \<noteq> None \<and> timestamp_us rt d = Inr raw \<longrightarrow>
               us = raw + 3 * 3600 * 1000000
               \<and> (0 \<le> raw \<longrightarrow> timestamp ev = millis raw + 3 * 3600 * 1000))
         \<and> (utcoffset d = None \<longrightarrow>
               local_timestamp rt (wall d + 3 * 3600 * 1000000) = Some us)"
    by (rule exI [of _ s], rule exI [of _ d], rule exI [of _ us])
       (use f(1,2) f(4-6) [unfolded d'] aware naive in auto)
next
  assume k: "fst (parse_kandilli_line rt line) = Some ev'"
  from kandilli_event_fields(6) [OF k]
  show "\<exists>d us. strptime rt (kandilli_time_field line) ''%Y-%m-%dT%H:%M:%S'' = Some d
         \<and> date ev' = strftime rt d ''%Y-%m-%dT%H:%M:%S''
         \<and> timestamp_us rt d = Inr us
         \<and> timestamp ev' = millis us"
    by blast
qed

theorem afad_shifted_three_hours_witness:
  "get afad_quake ''date'' = JStr ''2024-01-15T07:30:45Z''
   \<and> fromisoformat sample_rt (replace ''Z'' ''+00:00'' ''2024-01-15T07:30:45Z'')
       = Some \<lparr> wall = 1705303845000000, utcoffset = Some 0 \<rparr>
   \<and> date afad_event = ''2024-01-15T10:30:45''
   \<and> timestamp afad_event = 1705303845000 + 3 * 3600 * 1000
   \<and> strptime sample_rt (kandilli_time_field kandilli_line_ml) ''%Y-%m-%dT%H:%M:%S''
       = Some \<lparr> wall = 1705314645000000, utcoffset = None \<rparr>
   \<and> date kandilli_event_ml = ''2024-01-15T10:30:45''
   \<and> timestamp_us sample_rt \<lparr> wall = 1705314645000000, utcoffset = None \<rparr> = Inr 1705303845000000
   \<and> timestamp kandilli_event_ml = 1705303845000
   \<and> local_timestamp sample_rt (1705303860000000 + 3 * 3600 * 1000000) = Some 1705303860000000
   \<and> timestamp afad_event_no_magnitude = millis 1705303860000000"
proof -
  have an: "fst (standardize_afad_quake sample_rt afad_quake_no_magnitude)
      = Some afad_event_no_magnitude"
    by (simp add: afad_quake_no_magnitude_standardized)
  from afad_shifted_three_hours [of sample_rt afad_quake_no_magnitude afad_event_no_magnitude,
      THEN conjunct1, THEN mp, OF an]
  obtain sn dn usn where fn:
    "get afad_quake_no_magnitude ''date'' = JStr sn"
    "fromisoformat sample_rt (replace ''Z'' ''+00:00'' sn) = Some dn"
    "timestamp afad_event_no_magnitude = millis usn"
    "utcoffset dn = None \<longrightarrow>
       local_timestamp sample_rt (wall dn + 3 * 3600 * 1000000) = Some usn"
    by (elim exE conjE) (rule that, assumption+)
  from fn(1) have sn: "sn = ''2024-01-15T07:31:00''"
    by (simp add: afad_quake_no_magnitude_lookups)
  from fn(2) have dn: "dn = \<lparr> wall = 1705303860000000, utcoffset = None \<rparr>"
    unfolding sn sample_fromisoformat_values by simp
  from fn(4) have ln: "local_timestamp sample_rt (1705303860000000 + 3 * 3600 * 1000000) = Some usn"
    unfolding dn by simp
  then have usn: "usn = 1705303860000000"
    by (simp add: sample_rt_def sample_local_timestamp_def)
  have 9: "local_timestamp sample_rt (1705303860000000 + 3 * 3600 * 1000000) = Some 1705303860000000"
    using ln usn by simp
  have 10: "timestamp afad_event_no_magnitude = millis 1705303860000000"
    using fn(3) usn by simp
  have a: "fst (standardize_afad_quake sample_rt afad_quake) = Some afad_event"
    by (simp add: afad_quake_standardized)
  have k: "fst (parse_kandilli_line sample_rt kandilli_line_ml) = Some kandilli_event_ml"
    by (simp add: kandilli_line_ml_parsed)
  note T = afad_shifted_three_hours [of sample_rt afad_quake afad_event kandilli_line_ml
      kandilli_event_ml]
  from T [THEN conjunct1, THEN mp, OF a] obtain s d us where f:
    "get afad_quake ''date'' = JStr s"
    "fromisoformat sample_rt (replace ''Z'' ''+00:00'' s) = Some d"
    "timestamp afad_event = millis us"
    "\<forall>raw. utcoffset d \<noteq> None \<and> timestamp_us sample_rt d = Inr raw \<longrightarrow>
        us = raw + 3 * 3600 * 1000000
        \<and> (0 \<le> raw \<longrightarrow> timestamp afad_event = millis raw + 3 * 3600 * 1000)"
    by blast
  from f(1) have s: "s = ''2024-01-15T07:30:45Z''"
    by (simp add: afad_quake_lookups)
  from f(2) have d: "d = \<lparr> wall = 1705303845000000, utcoffset = Some 0 \<rparr>"
    unfolding s sample_fromisoformat_values by simp
  have raw: "utcoffset d \<noteq> None \<and> timestamp_us sample_rt d = Inr 1705303845000000"
    unfolding d by (simp add: timestamp_us_aware)
  have ms: "millis 1705303845000000 = 1705303845000"
    by (simp add: millis_def)
  from f(4) raw have 4: "timestamp afad_event = 1705303845000 + 3 * 3600 * 1000"
    using ms by auto
  from T [THEN conjunct2, THEN mp, OF k] obtain d2 us2 where g:
    "strptime sample_rt (kandilli_time_field kandilli_line_ml) ''%Y-%m-%dT%H:%M:%S'' = Some d2"
    "timestamp_us sample_rt d2 = Inr us2" "timestamp kandilli_event_ml = millis us2"
    by blast
  have tf: "kandilli_time_field kandilli_line_ml
      = replace ''.'' ''-'' ''2024.01.15'' @ ''T'' @ ''10:30:45''"
    by (simp add: kandilli_time_field_def kandilli_line_ml_split)
  from g(1) have d2: "d2 = \<lparr> wall = 1705314645000000, utcoffset = None \<rparr>"
    unfolding tf sample_strptime_values by simp
  have 5: "strptime sample_rt (kandilli_time_field kandilli_line_ml) ''%Y-%m-%dT%H:%M:%S''
       = Some \<lparr> wall = 1705314645000000, utcoffset = None \<rparr>"
    using g(1) d2 by simp
  have 7: "timestamp_us sample_rt \<lparr> wall = 1705314645000000, utcoffset = None \<rparr> = Inr 1705303845000000"
    by (simp add: sample_timestamp_naive)
  have 8: "timestamp kandilli_event_ml = 1705303845000"
    by (simp add: kandilli_event_ml_def)
  have 1: "get afad_quake ''date'' = JStr ''2024-01-15T07:30:45Z''"
    using f(1) s by simp
  have 2: "fromisoformat sample_rt (replace ''Z'' ''+00:00'' ''2024-01-15T07:30:45Z'')
       = Some \<lparr> wall = 1705303845000000, utcoffset = Some 0 \<rparr>"
    using f(2) s d by simp
  have 3: "date afad_event = ''2024-01-15T10:30:45''"
    by (simp add: afad_event_def)
  have 6: "date kandilli_event_ml = ''2024-01-15T10:30:45''"
    by (simp add: kandilli_event_ml_def)
  show ?thesis
    by (intro conjI 1 2 3 4 5 6 7 8 9 10)
qed

text \<open>
  Claim C8, as stated (at most one entry of \<^verbatim>\<open>magnitude_details\<close> is not null), fails
  for Kandilli: a line that reports both MD and ML yields an event with two entries.
\<close>

theorem two_magnitude_entries_counterexample:
  "parse_kandilli_line sample_rt kandilli_line_md_ml = (Some kandilli_event_md_ml, [])
   \<and> md (magnitude_details kandilli_event_md_ml) = Some 3.1
   \<and> ml (magnitude_details kandilli_event_md_ml) = Some 3.3
   \<and> non_null_entries (magnitude_details kandilli_event_md_ml) = 2
   \<and> \<not> non_null_entries (magnitude_details kandilli_event_md_ml) \<le> 1"
proof -
  have d: "magnitude_details kandilli_event_md_ml = \<lparr> md = Some 3.1, ml = Some 3.3, mw = None \<rparr>"
    by (simp add: kandilli_event_md_ml_def)
  have "md (magnitude_details kandilli_event_md_ml) = Some 3.1"
    "ml (magnitude_details kandilli_event_md_ml) = Some 3.3"
    unfolding d by simp_all
  moreover have "non_null_entries (magnitude_details kandilli_event_md_ml) = 2"
    unfolding d non_null_entries_count by (simp only: option.distinct if_False if_True) simp
  ultimately show ?thesis
    using kandilli_line_md_ml_parsed by simp
qed

text \<open>
  Claim C8, amended. An AFAD event has at most one entry of \<^verbatim>\<open>magnitude_details\<close> that
  is not null: the entry named by its type (\<^verbatim>\<open>md\<close> for "MD", \<^verbatim>\<open>ml\<close> for "ML",
  \<^verbatim>\<open>mw\<close> for "MW") is its magnitude, every other entry is null. A Kandilli event holds
  the three magnitude columns of its line, null for the placeholder, so up to three
  entries are not null; its magnitude and type are those of the first entry that is not
  null in the order ML, MW, MD, and magnitude 0 of type "MD" when all three are null.
\<close>

theorem magnitude_details_consistent:
  "(fst (standardize_afad_quake rt quake) = Some ev \<longrightarrow>
      non_null_entries (magnitude_details ev) \<le> 1
      \<and> md (magnitude_details ev) = (if mag_type ev = JStr ''MD'' then magnitude ev else None)
      \<and> ml (magnitude_details ev) = (if mag_type ev = JStr ''ML'' then magnitude ev else None)
      \<and> mw (magnitude_details ev) = (if mag_type ev = JStr ''MW'' then magnitude ev else None))
   \<and> (fst (parse_kandilli_line rt line) = Some ev' \<longrightarrow>
      kandilli_optional_float rt (split line ! 5) = Inr (md (magnitude_details ev'))
      \<and> kandilli_optional_float rt (split line ! 6) = Inr (ml (magnitude_details ev'))
      \<and> kandilli_optional_float rt (split line ! 7) = Inr (mw (magnitude_details ev'))
      \<and> (if ml (magnitude_details ev') \<noteq> None
          then mag_type ev' = JStr ''ML'' \<and> magnitude ev' = ml (magnitude_details ev')
          else if mw (magnitude_details ev') \<noteq> None
          then mag_type ev' = JStr ''MW'' \<and> magnitude ev' = mw (magnitude_details ev')
          else if md (magnitude_details ev') \<noteq> None
          then mag_type ev' = JStr ''MD'' \<and> magnitude ev' = md (magnitude_details ev')
          else mag_type ev' = JStr ''MD'' \<and> magnitude ev' = Some 0))"
proof (intro conjI impI)
  assume a: "fst (standardize_afad_quake rt quake) = Some ev"
  note d = afad_event_fields(8) [OF a]
  show "md (magnitude_details ev) = (if mag_type ev = JStr ''MD'' then magnitude ev else None)"
    "ml (magnitude_details ev) = (if mag_type ev = JStr ''ML'' then magnitude ev else None)"
    "mw (magnitude_details ev) = (if mag_type ev = JStr ''MW'' then magnitude ev else None)"
    by (subst d, simp)+
  show "non_null_entries (magnitude_details ev) \<le> 1"
    by (subst d) (simp add: non_null_entries_count)
next
  assume k: "fst (parse_kandilli_line rt line) = Some ev'"
  note f = kandilli_event_fields [OF k]
  show "kandilli_optional_float rt (split line ! 5) = Inr (md (magnitude_details ev'))"
    by (rule f(7))
  show "kandilli_optional_float rt (split line ! 6) = Inr (ml (magnitude_details ev'))"
    by (rule f(8))
  show "kandilli_optional_float rt (split line ! 7) = Inr (mw (magnitude_details ev'))"
    by (rule f(9))
  show "if ml (magnitude_details ev') \<noteq> None
          then mag_type ev' = JStr ''ML'' \<and> magnitude ev' = ml (magnitude_details ev')
          else if mw (magnitude_details ev') \<noteq> None
          then mag_type ev' = JStr ''MW'' \<and> magnitude ev' = mw (magnitude_details ev')
          else if md (magnitude_details ev') \<noteq> None
          then mag_type ev' = JStr ''MD'' \<and> magnitude ev' = md (magnitude_details ev')
          else mag_type ev' = JStr ''MD'' \<and> magnitude ev' = Some 0"
    using f(10) f(11) by simp
qed

theorem magnitude_details_consistent_witness:
  "non_null_entries (magnitude_details afad_event) \<le> 1
   \<and> mag_type afad_event = JStr ''MW''
   \<and> mw (magnitude_details afad_event) = magnitude afad_event
   \<and> kandilli_optional_float sample_rt (split kandilli_line_md_ml ! 5) = Inr (Some 3.1)
   \<and> mag_type kandilli_event_md_ml = JStr ''ML''
   \<and> magnitude kandilli_event_md_ml = Some 3.3"
proof -
  have a: "fst (standardize_afad_quake sample_rt afad_quake) = Some afad_event"
    by (simp add: afad_quake_standardized)
  have k: "fst (parse_kandilli_line sample_rt kandilli_line_md_ml) = Some kandilli_event_md_ml"
    by (simp add: kandilli_line_md_ml_parsed)
  note T = magnitude_details_consistent [of sample_rt afad_quake afad_event kandilli_line_md_ml
      kandilli_event_md_ml]
  note A = T [THEN conjunct1, THEN mp, OF a]
  note K = T [THEN conjunct2, THEN mp, OF k]
  have t: "mag_type afad_event = JStr ''MW''"
    by (simp add: afad_event_def)
  have sel: "md (magnitude_details kandilli_event_md_ml) = Some 3.1"
    "ml (magnitude_details kandilli_event_md_ml) = Some 3.3"
    by (simp_all add: kandilli_event_md_ml_def)
  have 1: "non_null_entries (magnitude_details afad_event) \<le> 1"
    using A by blast
  have 3: "mw (magnitude_details afad_event) = magnitude afad_event"
    using A t by simp
  have 4: "kandilli_optional_float sample_rt (split kandilli_line_md_ml ! 5) = Inr (Some 3.1)"
    using K sel(1) by simp
  have 5: "mag_type kandilli_event_md_ml = JStr ''ML'' \<and> magnitude kandilli_event_md_ml = Some 3.3"
    using K sel(2) by simp
  show ?thesis
    using 1 t 3 4 5 by (intro conjI) simp_all
qed

end
